theory Spec2Isabelle
  imports Main "HOL-Library.Word" "HOL-Library.List_Lexorder" "HOL-Library.AList"
begin

unbundle bit_operations_syntax

section \<open>JavaScript values used by the R2 gateway\<close>

text \<open>
  A JavaScript string is a sequence of UTF-16 code units, a \<open>Uint8Array\<close> a sequence of
  bytes. Error messages are kept as plain ASCII text. \<open>js\<close> turns an ASCII literal into
  the JavaScript string with the same characters.
\<close>

type_synonym js_string = "16 word list"
type_synonym bytes = "8 word list"

definition js :: "string \<Rightarrow> js_string" where
  "js s = map of_char s"

text \<open>
  \<open>TextEncoder.encode\<close>: UTF-8 of the string's code points; a surrogate pair is one
  code point of four bytes, a lone surrogate is replaced by U+FFFD.
\<close>

definition is_lead_surrogate :: "16 word \<Rightarrow> bool" where
  "is_lead_surrogate c = (0xD800 \<le> c \<and> c \<le> 0xDBFF)"

definition is_trail_surrogate :: "16 word \<Rightarrow> bool" where
  "is_trail_surrogate c = (0xDC00 \<le> c \<and> c \<le> 0xDFFF)"

definition utf8_of_code_point :: "nat \<Rightarrow> bytes" where
  "utf8_of_code_point cp =
     (if cp < 0x80 then [of_nat cp]
      else if cp < 0x800 then [of_nat (0xC0 + cp div 64), of_nat (0x80 + cp mod 64)]
      else if cp < 0x10000 then
        [of_nat (0xE0 + cp div 4096), of_nat (0x80 + cp div 64 mod 64),
         of_nat (0x80 + cp mod 64)]
      else
        [of_nat (0xF0 + cp div 262144), of_nat (0x80 + cp div 4096 mod 64),
         of_nat (0x80 + cp div 64 mod 64), of_nat (0x80 + cp mod 64)])"

definition scalar_of_unit :: "16 word \<Rightarrow> nat" where
  "scalar_of_unit c =
     (if is_lead_surrogate c \<or> is_trail_surrogate c then 0xFFFD else unat c)"

fun encode :: "js_string \<Rightarrow> bytes" where
  "encode [] = []"
| "encode [c] = utf8_of_code_point (scalar_of_unit c)"
| "encode (c # d # cs) =
     (if is_lead_surrogate c \<and> is_trail_surrogate d
      then utf8_of_code_point (0x10000 + (unat c - 0xD800) * 0x400 + (unat d - 0xDC00))
             @ encode cs
      else utf8_of_code_point (scalar_of_unit c) @ encode (d # cs))"

text \<open>Decimal rendering of a number inside a template string.\<close>

fun dec :: "nat \<Rightarrow> string" where
  "dec n = (if n < 10 then [''0123456789'' ! n]
            else dec (n div 10) @ [''0123456789'' ! (n mod 10)])"

text \<open>\<open>Buffer.from(bytes).toString("hex")\<close>: two lower-case hex digits per byte.\<close>

definition hex_digit :: "nat \<Rightarrow> 16 word" where
  "hex_digit n = of_char (''0123456789abcdef'' ! n)"

definition toString_hex :: "bytes \<Rightarrow> js_string" where
  "toString_hex bs = concat (map (\<lambda>b. [hex_digit (unat b div 16), hex_digit (unat b mod 16)]) bs)"

text \<open>
  A JavaScript number as the option bags use it: a byte count, or \<open>NaN\<close> (whose
  \<open>typeof\<close> is \<open>"number"\<close> too). Fractions and infinities are left out.
\<close>

datatype js_number = NaN | Num int

fun isNaN :: "js_number \<Rightarrow> bool" where
  "isNaN NaN = True"
| "isNaN (Num n) = False"

section \<open>Errors\<close>

datatype Method = HEAD | GET | PUT | LIST | DELETE

text \<open>
  \<open>throw new TypeError(message)\<close>, and \<open>throwR2Error(method, status, message)\<close>, which
  throws \<open>Error(`R2 ${method} failed: ${status} ${message}`)\<close>.
\<close>

datatype error = TypeError string | R2Error Method nat string

definition throwR2Error :: "Method \<Rightarrow> nat \<Rightarrow> string \<Rightarrow> error" where
  "throwR2Error method status message = R2Error method status message"

section \<open>Option bags and object metadata\<close>

datatype etags = EtagString js_string | EtagArray "js_string list"

text \<open>\<open>R2Conditional\<close>; a \<open>Date\<close> is its time value in milliseconds.\<close>

record R2Conditional =
  etagMatches :: "etags option"
  etagDoesNotMatch :: "etags option"
  uploadedBefore :: "int option"
  uploadedAfter :: "int option"

record R2Range =
  offset :: "js_number option"
  length' :: "js_number option"
  suffix :: "js_number option"

record R2HTTPMetadata =
  contentType :: "js_string option"
  contentLanguage :: "js_string option"
  contentDisposition :: "js_string option"
  contentEncoding :: "js_string option"
  cacheControl :: "js_string option"
  cacheExpiry :: "int option"

record R2ObjectMetadata =
  key :: js_string
  size' :: nat
  etag :: js_string
  version :: js_string
  httpEtag :: js_string
  uploaded :: int
  httpMetadata :: R2HTTPMetadata
  customMetadata :: "(js_string \<times> js_string) list"

record R2Options =
  onlyIf :: "R2Conditional option"

record R2GetOptions = R2Options +
  range' :: "R2Range option"

datatype md5_option = Md5String js_string | Md5ArrayBuffer bytes

record R2PutOptions = R2Options +
  httpMetadata_opt :: "R2HTTPMetadata option"
  customMetadata_opt :: "(js_string \<times> js_string) list option"
  md5 :: "md5_option option"

text \<open>
  \<open>R2PutValueType\<close>; \<open>Unsupported\<close> stands for any other value a JavaScript caller
  passes, which \<open>put\<close> answers with a \<open>TypeError\<close>.
\<close>

datatype R2PutValueType =
    ValString js_string
  | ValReadableStream bytes
  | ValArrayBuffer bytes
  | ValArrayBufferView bytes
  | ValNull
  | ValBlob bytes
  | Unsupported

definition MAX_LIST_KEYS :: nat where
  "MAX_LIST_KEYS = 1000"

definition MAX_KEY_SIZE :: nat where
  "MAX_KEY_SIZE = 512"

definition MAX_VALUE_SIZE :: nat where
  "MAX_VALUE_SIZE = 5 * 1000 * 1000 * 1000 - 5 * 1000 * 1000"

section \<open>Key and option validation\<close>

text \<open>A validator returns the error it throws, or \<open>None\<close> when it returns normally.\<close>

definition validateKey :: "Method \<Rightarrow> js_string \<Rightarrow> error option" where
  "validateKey method k =
     (if k = js '''' then Some (TypeError ''Key name cannot be empty.'')
      else if k = js ''.'' then Some (TypeError ''\".\" is not allowed as a key name.'')
      else if k = js ''..'' then Some (TypeError ''\"..\" is not allowed as a key name.'')
      else
        let keyLength = length (encode k) in
        if keyLength > MAX_KEY_SIZE then
          Some (throwR2Error method 414
            (''UTF-8 encoded length of '' @ dec keyLength
               @ '' exceeds key length limit of '' @ dec MAX_KEY_SIZE @ ''.''))
        else None)"

text \<open>
  \<open>validateOnlyIf\<close>, \<open>validateHttpMetadata\<close> and the \<open>customMetadata\<close> and \<open>md5\<close>
  checks of \<open>validateR2PutOptions\<close> test the run-time type of each field that is present
  (string or array, \<open>Date\<close>, string, \<open>ArrayBuffer\<close>). The option records above carry the
  declared TypeScript types, and every value of those types passes.
\<close>

definition validateOnlyIf :: "R2Conditional \<Rightarrow> error option" where
  "validateOnlyIf c = None"

definition validateHttpMetadata :: "R2HTTPMetadata option \<Rightarrow> error option" where
  "validateHttpMetadata h = None"

definition empty_conditional :: R2Conditional where
  "empty_conditional =
     \<lparr>etagMatches = None, etagDoesNotMatch = None, uploadedBefore = None, uploadedAfter = None\<rparr>"

definition empty_range :: R2Range where
  "empty_range = \<lparr>offset = None, length' = None, suffix = None\<rparr>"

text \<open>The test \<open>x !== undefined && !isNaN(x)\<close> of \<open>validateR2GetOptions\<close>.\<close>

definition defined_and_not_isNaN :: "js_number option \<Rightarrow> bool" where
  "defined_and_not_isNaN x = (case x of None \<Rightarrow> False | Some n \<Rightarrow> \<not> isNaN n)"

definition validateR2GetOptions :: "R2GetOptions \<Rightarrow> error option" where
  "validateR2GetOptions options =
     (let c = (case onlyIf options of None \<Rightarrow> empty_conditional | Some c \<Rightarrow> c);
          r = (case range' options of None \<Rightarrow> empty_range | Some r \<Rightarrow> r)
      in case validateOnlyIf c of
           Some e \<Rightarrow> Some e
         | None \<Rightarrow>
             if defined_and_not_isNaN (offset r) then
               Some (throwR2Error GET 400 ''offset must be a number.'')
             else if defined_and_not_isNaN (length' r) then
               Some (throwR2Error GET 400 ''length must be a number.'')
             else if defined_and_not_isNaN (suffix r) then
               Some (throwR2Error GET 400 ''suffix must be a number.'')
             else None)"

definition validateR2PutOptions :: "R2PutOptions \<Rightarrow> error option" where
  "validateR2PutOptions options =
     (let c = (case onlyIf options of None \<Rightarrow> empty_conditional | Some c \<Rightarrow> c)
      in case validateOnlyIf c of
           Some e \<Rightarrow> Some e
         | None \<Rightarrow> validateHttpMetadata (httpMetadata_opt options))"

section \<open>The storage substrate\<close>

text \<open>
  \<open>StoredMeta\<close> and \<open>StoredValueMeta\<close> of the shared package, generic in the metadata, and
  the log of the calls the gateway makes on its \<open>Storage\<close>. The store keeps its entries
  as an association list, one per key.
\<close>

record 'm StoredMeta =
  expiration :: "nat option"
  metadata :: "'m option"

record 'm StoredValueMeta = "'m StoredMeta" +
  value' :: bytes

datatype storage_call =
    CallMeta js_string
  | CallGet js_string
  | CallGetRange js_string js_number "js_number option"
  | CallGetSuffix js_string js_number
  | CallPut js_string
  | CallDelete js_string

record storage =
  entries :: "(js_string \<times> R2ObjectMetadata StoredValueMeta) list"
  calls :: "storage_call list"

datatype storage_error = RangeError

definition logged :: "storage \<Rightarrow> storage_call \<Rightarrow> storage" where
  "logged st c = st\<lparr>calls := calls st @ [c]\<rparr>"

text \<open>
  Modelled from the spec: the \<open>Storage\<close> class of the shared package and its in-memory
  implementation are not among the sources. Section 6 asks of the substrate a
  metadata-only lookup, full, range and suffix value lookups, put of value and metadata,
  delete, and a cursor-based list. The lookup by metadata touches no value bytes.
\<close>

definition Storage_meta :: "storage \<Rightarrow> js_string \<Rightarrow> R2ObjectMetadata StoredMeta option \<times> storage" where
  "Storage_meta st k =
     (map_option (\<lambda>v. \<lparr>expiration = expiration v, metadata = metadata v\<rparr>)
        (map_of (entries st) k),
      logged st (CallMeta k))"

text \<open>Modelled from the spec: the full read of the substrate.\<close>

definition Storage_get ::
    "storage \<Rightarrow> js_string \<Rightarrow> R2ObjectMetadata StoredValueMeta option \<times> storage" where
  "Storage_get st k = (map_of (entries st) k, logged st (CallGet k))"

text \<open>
  Modelled from the spec: the windowed read of the substrate, bytes
  \<open>[offset, offset + length)\<close>, to the end when no length is given; a window the stored
  value does not contain cannot be honoured.
\<close>

definition Storage_getRangeMaybeExpired ::
    "storage \<Rightarrow> js_string \<Rightarrow> js_number \<Rightarrow> js_number option
       \<Rightarrow> (storage_error + R2ObjectMetadata StoredValueMeta option) \<times> storage" where
  "Storage_getRangeMaybeExpired st k off len =
     (case map_of (entries st) k of
        None \<Rightarrow> Inr None
      | Some v \<Rightarrow>
          (case off of
             NaN \<Rightarrow> Inl RangeError
           | Num ofs \<Rightarrow>
               if ofs < 0 \<or> int (length (value' v)) < ofs then Inl RangeError
               else
                 (case len of
                    None \<Rightarrow> Inr (Some (v\<lparr>value' := drop (nat ofs) (value' v)\<rparr>))
                  | Some NaN \<Rightarrow> Inl RangeError
                  | Some (Num l) \<Rightarrow>
                      if l \<le> 0 \<or> int (length (value' v)) < ofs + l then Inl RangeError
                      else Inr (Some (v\<lparr>value' := take (nat l) (drop (nat ofs) (value' v))\<rparr>)))),
      logged st (CallGetRange k off len))"

text \<open>Modelled from the spec: the suffix read of the substrate, the last \<open>n\<close> bytes.\<close>

definition Storage_getSuffixMaybeExpired ::
    "storage \<Rightarrow> js_string \<Rightarrow> js_number
       \<Rightarrow> (storage_error + R2ObjectMetadata StoredValueMeta option) \<times> storage" where
  "Storage_getSuffixMaybeExpired st k n =
     (case map_of (entries st) k of
        None \<Rightarrow> Inr None
      | Some v \<Rightarrow>
          (case n of
             NaN \<Rightarrow> Inl RangeError
           | Num s \<Rightarrow>
               if s \<le> 0 then Inl RangeError
               else Inr (Some (v\<lparr>value' := drop (length (value' v) - nat s) (value' v)\<rparr>))),
      logged st (CallGetSuffix k n))"

text \<open>Modelled from the spec: value and metadata are stored as one entry of the key.\<close>

definition Storage_put ::
    "storage \<Rightarrow> js_string \<Rightarrow> R2ObjectMetadata StoredValueMeta \<Rightarrow> storage" where
  "Storage_put st k v = logged (st\<lparr>entries := AList.update k v (entries st)\<rparr>) (CallPut k)"

text \<open>Modelled from the spec: delete removes value and metadata; an absent key is no error.\<close>

definition Storage_delete :: "storage \<Rightarrow> js_string \<Rightarrow> storage" where
  "Storage_delete st k = logged (st\<lparr>entries := AList.delete k (entries st)\<rparr>) (CallDelete k)"

section \<open>Conditional evaluation\<close>

text \<open>
  Modelled from the spec: \<open>parseOnlyIf\<close> of \<open>r2Object\<close> is not among the sources. It turns
  a \<open>Headers\<close> object into the plain bag; a plain bag is returned as it is, and an absent
  one is the empty bag.
\<close>

definition parseOnlyIf :: "R2Conditional option \<Rightarrow> R2Conditional" where
  "parseOnlyIf c = (case c of None \<Rightarrow> empty_conditional | Some c \<Rightarrow> c)"

definition empty_httpMetadata :: R2HTTPMetadata where
  "empty_httpMetadata =
     \<lparr>contentType = None, contentLanguage = None, contentDisposition = None,
      contentEncoding = None, cacheControl = None, cacheExpiry = None\<rparr>"

text \<open>
  Modelled from the spec: \<open>parseHttpMetadata\<close> of \<open>r2Object\<close> is not among the sources. As
  \<open>parseOnlyIf\<close> does for the conditional, it returns a plain record as it is and the
  empty record for an absent one.
\<close>

definition parseHttpMetadata :: "R2HTTPMetadata option \<Rightarrow> R2HTTPMetadata" where
  "parseHttpMetadata h = (case h of None \<Rightarrow> empty_httpMetadata | Some h \<Rightarrow> h)"

text \<open>
  Modelled from the spec: the comparison of etags inside \<open>testR2Conditional\<close>. The etag of
  the object equals the supplied string, or one of the supplied strings.
\<close>

fun etag_among :: "etags \<Rightarrow> js_string \<Rightarrow> bool" where
  "etag_among (EtagString s) e = (s = e)"
| "etag_among (EtagArray xs) e = (e \<in> set xs)"

text \<open>A clause that is not supplied holds.\<close>

definition clause_holds :: "'a option \<Rightarrow> ('a \<Rightarrow> bool) \<Rightarrow> bool" where
  "clause_holds c p = (case c of None \<Rightarrow> True | Some x \<Rightarrow> p x)"

text \<open>
  Modelled from the spec: \<open>testR2Conditional\<close> of \<open>r2Object\<close> is not among the sources.
  By section 4.2 its result is "the conditional test fails": every clause that is supplied
  must hold, \<open>etagMatches\<close> when the object's etag equals one of the supplied values,
  \<open>etagDoesNotMatch\<close> when it equals none, \<open>uploadedBefore\<close> and \<open>uploadedAfter\<close> when the
  upload time is strictly earlier or later; the empty bag always passes.
\<close>

definition testR2Conditional :: "R2Conditional \<Rightarrow> R2ObjectMetadata \<Rightarrow> bool" where
  "testR2Conditional c m =
     (\<not> (clause_holds (etagMatches c) (\<lambda>es. etag_among es (etag m))
         \<and> clause_holds (etagDoesNotMatch c) (\<lambda>es. \<not> etag_among es (etag m))
         \<and> clause_holds (uploadedBefore c) (\<lambda>d. uploaded m < d)
         \<and> clause_holds (uploadedAfter c) (\<lambda>d. d < uploaded m)))"

section \<open>The object gateway\<close>

text \<open>
  Every operation takes the storage and returns what it returns or throws, with the
  storage after it. \<open>R2Object\<close> is the metadata, \<open>R2ObjectBody\<close> the metadata with the
  value. The request context of \<open>#prepareCtx\<close> and the input and output gates, which touch
  neither the arguments nor the storage, are left out.
\<close>

datatype get_result =
    Null
  | R2Object R2ObjectMetadata
  | R2ObjectBody R2ObjectMetadata bytes

definition head :: "storage \<Rightarrow> js_string \<Rightarrow> (error + R2ObjectMetadata option) \<times> storage" where
  "head st k =
     (case validateKey HEAD k of
        Some e \<Rightarrow> (Inl e, st)
      | None \<Rightarrow>
          (case Storage_meta st k of
             (None, st1) \<Rightarrow> (Inr None, st1)
           | (Some stored, st1) \<Rightarrow> (Inr (metadata stored), st1)))"

text \<open>\<open>meta?.metadata\<close>.\<close>

definition metadata_of :: "R2ObjectMetadata StoredMeta option \<Rightarrow> R2ObjectMetadata option" where
  "metadata_of m = (case m of None \<Rightarrow> None | Some s \<Rightarrow> metadata s)"

text \<open>\<open>meta?.metadata && testR2Conditional(onlyIf, meta.metadata)\<close>.\<close>

definition precondition_failed ::
    "R2Conditional \<Rightarrow> R2ObjectMetadata StoredMeta option \<Rightarrow> bool" where
  "precondition_failed c m =
     (case metadata_of m of None \<Rightarrow> False | Some md \<Rightarrow> testR2Conditional c md)"

text \<open>The part of \<open>get\<close> that reads the value, by suffix, by window or in full.\<close>

definition read_value ::
    "storage \<Rightarrow> js_string \<Rightarrow> R2Range
       \<Rightarrow> (error + R2ObjectMetadata StoredValueMeta option) \<times> storage" where
  "read_value st k r =
     (case suffix r of
        Some n \<Rightarrow>
          (case Storage_getSuffixMaybeExpired st k n of
             (Inl _, st1) \<Rightarrow>
               (Inl (throwR2Error GET 400 ''The requested range is not satisfiable.''), st1)
           | (Inr stored, st1) \<Rightarrow> (Inr stored, st1))
      | None \<Rightarrow>
          if offset r \<noteq> None \<or> length' r \<noteq> None then
            if length' r = Some (Num 0) then
              (Inl (throwR2Error GET 400 ''The requested range is not satisfiable.''), st)
            else
              (case Storage_getRangeMaybeExpired st k
                      (case offset r of None \<Rightarrow> Num 0 | Some ofs \<Rightarrow> ofs) (length' r) of
                 (Inl _, st1) \<Rightarrow>
                   (Inl (throwR2Error GET 400 ''The requested range is not satisfiable.''), st1)
               | (Inr stored, st1) \<Rightarrow> (Inr stored, st1))
          else
            (case Storage_get st k of (stored, st1) \<Rightarrow> (Inr stored, st1)))"

definition get :: "storage \<Rightarrow> js_string \<Rightarrow> R2GetOptions \<Rightarrow> (error + get_result) \<times> storage" where
  "get st k options =
     (let r = (case range' options of None \<Rightarrow> empty_range | Some r \<Rightarrow> r) in
      case validateKey GET k of
        Some e \<Rightarrow> (Inl e, st)
      | None \<Rightarrow>
     (case validateR2GetOptions options of
        Some e \<Rightarrow> (Inl e, st)
      | None \<Rightarrow>
     (let c = parseOnlyIf (onlyIf options) in
      case Storage_meta st k of (m, st1) \<Rightarrow>
     (case metadata_of m of
        None \<Rightarrow> (Inr Null, st1)
      | Some md \<Rightarrow>
          if testR2Conditional c md \<or> size' md = 0 then (Inr (R2Object md), st1)
          else
            (case read_value st1 k r of
               (Inl e, st2) \<Rightarrow> (Inl e, st2)
             | (Inr None, st2) \<Rightarrow> (Inr Null, st2)
             | (Inr (Some stored), st2) \<Rightarrow>
                 (case metadata stored of
                    None \<Rightarrow> (Inr Null, st2)
                  | Some md2 \<Rightarrow> (Inr (R2ObjectBody md2 (value' stored)), st2)))))))"

text \<open>The conversion of the value of \<open>put\<close> to a \<open>Uint8Array\<close>; \<open>None\<close> is the \<open>TypeError\<close>.\<close>

fun to_Uint8Array :: "R2PutValueType \<Rightarrow> bytes option" where
  "to_Uint8Array (ValString s) = Some (encode s)"
| "to_Uint8Array (ValReadableStream bs) = Some bs"
| "to_Uint8Array (ValArrayBuffer bs) = Some bs"
| "to_Uint8Array (ValArrayBufferView bs) = Some bs"
| "to_Uint8Array ValNull = Some []"
| "to_Uint8Array (ValBlob bs) = Some bs"
| "to_Uint8Array Unsupported = None"

fun md5_as_string :: "md5_option \<Rightarrow> js_string" where
  "md5_as_string (Md5String s) = s"
| "md5_as_string (Md5ArrayBuffer bs) = toString_hex bs"

text \<open>
  \<open>put\<close> takes the digest function \<open>createMD5\<close>, the token \<open>createVersion()\<close> returns and
  the time \<open>new Date()\<close> reads, none of which are among the sources. \<open>build_metadata\<close> is
  the object it assembles under "build metadata".
\<close>

definition build_metadata ::
    "js_string \<Rightarrow> nat \<Rightarrow> js_string \<Rightarrow> js_string \<Rightarrow> int \<Rightarrow> R2HTTPMetadata
       \<Rightarrow> (js_string \<times> js_string) list \<Rightarrow> R2ObjectMetadata" where
  "build_metadata k byteLength md5Hash createVersion now http custom =
     \<lparr>key = k, size' = byteLength, etag = md5Hash, version = createVersion,
      httpEtag = js ''\"'' @ md5Hash @ js ''\"'', uploaded = now,
      httpMetadata = http, customMetadata = custom\<rparr>"

definition put ::
    "(bytes \<Rightarrow> js_string) \<Rightarrow> js_string \<Rightarrow> int \<Rightarrow> storage \<Rightarrow> js_string \<Rightarrow> R2PutValueType
       \<Rightarrow> R2PutOptions \<Rightarrow> (error + R2ObjectMetadata option) \<times> storage" where
  "put createMD5 createVersion now st k v options =
     (case validateKey PUT k of
        Some e \<Rightarrow> (Inl e, st)
      | None \<Rightarrow>
     (case validateR2PutOptions options of
        Some e \<Rightarrow> (Inl e, st)
      | None \<Rightarrow>
     (let custom = (case customMetadata_opt options of None \<Rightarrow> [] | Some cm \<Rightarrow> cm);
          c = parseOnlyIf (onlyIf options);
          http = parseHttpMetadata (httpMetadata_opt options)
      in case Storage_meta st k of (m, st1) \<Rightarrow>
     (if precondition_failed c m then (Inr None, st1)
      else
        (case to_Uint8Array v of
           None \<Rightarrow>
             (Inl (TypeError
                (''R2 put() accepts only nulls, strings, Blobs, ArrayBuffers, ''
                   @ ''ArrayBufferViews, and ReadableStreams as values.'')), st1)
         | Some stored \<Rightarrow>
             if length stored > MAX_VALUE_SIZE then
               (Inl (throwR2Error PUT 400
                  (''Value length of '' @ dec (length stored) @ '' exceeds limit of ''
                     @ dec MAX_VALUE_SIZE @ ''.'')), st1)
             else
               let md5Hash = createMD5 stored in
               if (case md5 options of None \<Rightarrow> False | Some h \<Rightarrow> md5_as_string h \<noteq> md5Hash)
               then
                 (Inl (throwR2Error PUT 400
                    ''The Content-MD5 you specified did not match what we received.''), st1)
               else
                 let md = build_metadata k (length stored) md5Hash createVersion now
                            http custom
                 in (Inr (Some md),
                     Storage_put st1 k
                       \<lparr>expiration = None, metadata = Some md, value' = stored\<rparr>))))))"

definition delete :: "storage \<Rightarrow> js_string \<Rightarrow> (error + unit) \<times> storage" where
  "delete st k =
     (case validateKey DELETE k of
        Some e \<Rightarrow> (Inl e, st)
      | None \<Rightarrow> (Inr (), Storage_delete st k))"

section \<open>Listing\<close>

record 'm StoredKeyMeta = "'m StoredMeta" +
  name :: js_string

definition startsWith :: "'a list \<Rightarrow> 'a list \<Rightarrow> bool" where
  "startsWith s p = (take (length p) s = p)"

text \<open>
  Modelled from the spec: the enumeration behind \<open>list\<close> of the substrate, the stored keys
  that start with the prefix, in ascending lexicographic order, each with its metadata.
\<close>

definition matching_keys :: "storage \<Rightarrow> js_string \<Rightarrow> R2ObjectMetadata StoredKeyMeta list" where
  "matching_keys st pre =
     sort_key name
       (map (\<lambda>(k, v). \<lparr>expiration = expiration v, metadata = metadata v, name = k\<rparr>)
          (filter (\<lambda>(k, v). startsWith k pre) (entries st)))"

text \<open>
  Modelled from the spec: the cursor-based \<open>list(prefix, limit, cursor)\<close> of the substrate
  is not among the sources. It enumerates the keys with the prefix in ascending
  lexicographic order, continues strictly after the key the cursor encodes, returns at
  most \<open>limit\<close> of them and, when keys remain after the page, the cursor of the last key
  returned. The cursor token is the key itself here. The call is a read and is not logged.
\<close>

definition Storage_list ::
    "storage \<Rightarrow> js_string \<Rightarrow> nat \<Rightarrow> js_string option
       \<Rightarrow> R2ObjectMetadata StoredKeyMeta list \<times> js_string option" where
  "Storage_list st pre lim cur =
     (let matching = matching_keys st pre;
          rest = (case cur of None \<Rightarrow> matching | Some c \<Rightarrow> filter (\<lambda>e. c < name e) matching);
          page = take lim rest
      in (page,
          if lim < length rest
          then (if page = [] then cur else Some (name (last page)))
          else None))"

text \<open>\<open>String.prototype.includes\<close>: the delimiter occurs somewhere in the string.\<close>

fun string_includes :: "'a list \<Rightarrow> 'a list \<Rightarrow> bool" where
  "string_includes [] d = (d = [])"
| "string_includes (c # cs) d = (startsWith (c # cs) d \<or> string_includes cs d)"

text \<open>
  \<open>objectKey.split(delimiter)[0]\<close>, as the string it becomes inside the concatenation:
  the text before the first occurrence of the delimiter; with the empty delimiter the
  string is split into its code units, and the first element of no elements is
  \<open>undefined\<close>.
\<close>

fun before_first :: "'a list \<Rightarrow> 'a list \<Rightarrow> 'a list" where
  "before_first [] d = []"
| "before_first (c # cs) d = (if startsWith (c # cs) d then [] else c # before_first cs d)"

definition split_first :: "js_string \<Rightarrow> js_string \<Rightarrow> js_string" where
  "split_first s d =
     (if d = [] then (case s of [] \<Rightarrow> js ''undefined'' | c # cs \<Rightarrow> [c])
      else before_first s d)"

text \<open>\<open>Set.prototype.add\<close> on a set kept in insertion order.\<close>

definition set_add :: "'a \<Rightarrow> 'a list \<Rightarrow> 'a list" where
  "set_add x xs = (if x \<in> set xs then xs else xs @ [x])"

text \<open>
  The second \<open>filter\<close> of \<open>#list\<close>, with the set of delimited prefixes it adds to. Its
  callback returns \<open>true\<close> when there is no delimiter and \<open>false\<close> when the rest of the key
  includes the delimiter; otherwise it falls off its end, and \<open>filter\<close> drops the element
  as it drops every falsy result.
\<close>

fun filter_delimited ::
    "js_string \<Rightarrow> js_string option \<Rightarrow> R2ObjectMetadata list \<Rightarrow> js_string list
       \<Rightarrow> R2ObjectMetadata list \<times> js_string list" where
  "filter_delimited pre delim [] dps = ([], dps)"
| "filter_delimited pre delim (md # mds) dps =
     (case delim of
        None \<Rightarrow>
          (case filter_delimited pre delim mds dps of (kept, dps') \<Rightarrow> (md # kept, dps'))
      | Some d \<Rightarrow>
          let objectKey = drop (length pre) (key md) in
          if string_includes objectKey d then
            filter_delimited pre delim mds (set_add (pre @ split_first objectKey d @ d) dps)
          else filter_delimited pre delim mds dps)"

datatype include_item = Include_httpMetadata | Include_customMetadata

definition only_included :: "include_item list \<Rightarrow> R2ObjectMetadata \<Rightarrow> R2ObjectMetadata" where
  "only_included inc md =
     (let md1 = (if Include_httpMetadata \<in> set inc then md
                 else md\<lparr>httpMetadata := empty_httpMetadata\<rparr>)
      in if Include_customMetadata \<in> set inc then md1 else md1\<lparr>customMetadata := []\<rparr>)"

text \<open>\<open>#list\<close>: one query of the storage; returns the objects, the cursor and the set.\<close>

definition list_inner ::
    "storage \<Rightarrow> js_string \<Rightarrow> nat \<Rightarrow> include_item list \<Rightarrow> js_string list
       \<Rightarrow> js_string option \<Rightarrow> js_string option
       \<Rightarrow> (R2ObjectMetadata list \<times> js_string option) \<times> js_string list" where
  "list_inner st pre lim inc dps delim cur =
     (case Storage_list st pre lim cur of (ks, cur') \<Rightarrow>
        (case filter_delimited pre delim (List.map_filter metadata ks) dps of
           (kept, dps') \<Rightarrow> ((map (only_included inc) kept, cur'), dps')))"

text \<open>The \<open>while\<close> loop of \<open>list\<close>.\<close>

function list_loop ::
    "storage \<Rightarrow> js_string \<Rightarrow> nat \<Rightarrow> include_item list \<Rightarrow> js_string option
       \<Rightarrow> R2ObjectMetadata list \<Rightarrow> js_string list \<Rightarrow> js_string option
       \<Rightarrow> R2ObjectMetadata list \<times> js_string list \<times> js_string option" where
  "list_loop st pre lim inc delim objs dps cur =
     (if length objs + length dps < lim then
        (case list_inner st pre (lim - length objs) inc dps delim cur of
           ((newObjects, newCursor), dps') \<Rightarrow>
             if newObjects = [] then (objs, dps', newCursor)
             else list_loop st pre lim inc delim (objs @ newObjects) dps' newCursor)
      else (objs, dps, cur))"
  by pat_completeness auto
termination
  by (relation "measure (\<lambda>(st, pre, lim, inc, delim, objs, dps, cur). lim - length objs)")
    (auto simp: length_greater_0_conv [symmetric] simp del: length_greater_0_conv)

declare list_loop.simps [simp del]

record R2ListOptions =
  limit :: "js_number option"
  prefix :: "js_string option"
  cursor_opt :: "js_string option"
  delimiter :: "js_string option"
  include_opt :: "include_item list option"

record R2Objects =
  objects :: "R2ObjectMetadata list"
  truncated :: bool
  cursor :: "js_string option"
  delimitedPrefixes :: "js_string list"

text \<open>
  \<open>list\<close>. A limit of \<open>NaN\<close> passes the check of the limit, since both of its
  comparisons are false, and the loop does not run, since its comparison is false.
\<close>

definition list_objects :: "storage \<Rightarrow> R2ListOptions \<Rightarrow> error + R2Objects" where
  "list_objects st options =
     (let pre = (case prefix options of None \<Rightarrow> [] | Some p \<Rightarrow> p);
          lim = (case limit options of None \<Rightarrow> Num (int MAX_LIST_KEYS) | Some l \<Rightarrow> l);
          inc = (case include_opt options of None \<Rightarrow> [] | Some i \<Rightarrow> i)
      in case lim of
           NaN \<Rightarrow>
             Inr \<lparr>objects = [], truncated = (cursor_opt options \<noteq> None),
                  cursor = cursor_opt options, delimitedPrefixes = []\<rparr>
         | Num n \<Rightarrow>
             if n < 1 \<or> int MAX_LIST_KEYS < n then
               Inl (throwR2Error LIST 400 ''MaxKeys params must be positive integer <= 1000.'')
             else
               (case list_loop st pre (if inc \<noteq> [] then min (nat n) 100 else nat n) inc
                       (delimiter options) [] [] (cursor_opt options) of
                  (objs, dps, cur) \<Rightarrow>
                    Inr \<lparr>objects = objs, truncated = (cur \<noteq> None), cursor = cur,
                         delimitedPrefixes = dps\<rparr>))"

section \<open>The file-system storage\<close>

text \<open>
  The disk holds regular files by absolute path, one entry per path; a directory exists
  where a file lies below it. Paths are POSIX paths.
\<close>

type_synonym disk = "(js_string \<times> bytes) list"

datatype errno = EEXIST | ENOTDIR | EISDIR

datatype FileStorageErrorCode = ERR_TRAVERSAL | ERR_NAMESPACE_KEY_CHILD

text \<open>
  What the methods of \<open>FileStorage\<close> throw: a \<open>FileStorageError\<close>, an error of the file
  system passed on unchanged, or the \<open>SyntaxError\<close> of \<open>JSON.parse\<close>.
\<close>

datatype file_error = FileStorageError FileStorageErrorCode | Errno errno | SyntaxError

definition slash :: "16 word" where
  "slash = 0x2F"

text \<open>The directories above a path: its proper prefixes that end before a separator.\<close>

definition ancestors :: "js_string \<Rightarrow> js_string list" where
  "ancestors p = map (\<lambda>i. take i p) (filter (\<lambda>i. p ! i = slash) [1..<length p])"

definition is_file :: "disk \<Rightarrow> js_string \<Rightarrow> bool" where
  "is_file d p = (map_of d p \<noteq> None)"

definition is_directory :: "disk \<Rightarrow> js_string \<Rightarrow> bool" where
  "is_directory d p = list_ex (\<lambda>(q, v). startsWith q (p @ [slash])) d"

definition below_a_file :: "disk \<Rightarrow> js_string \<Rightarrow> bool" where
  "below_a_file d p = list_ex (is_file d) (ancestors p)"

text \<open>
  Modelled from the spec: \<open>readFile\<close> of \<open>./helpers\<close> is not among the sources. By section
  4.5 a read below a path segment that is itself a stored file fails (\<open>ENOTDIR\<close>), and
  reading an absent file gives \<open>undefined\<close>. A directory is not a file to read.
\<close>

definition readFile :: "disk \<Rightarrow> js_string \<Rightarrow> errno + bytes option" where
  "readFile d p =
     (if below_a_file d p then Inl ENOTDIR
      else if is_directory d p then Inl EISDIR
      else Inr (map_of d p))"

text \<open>
  Modelled from the spec: \<open>writeFile\<close> of \<open>./helpers\<close> is not among the sources. By section
  4.5 a write below a path segment that is itself a stored file fails structurally
  (\<open>EEXIST\<close>, which \<open>put\<close> turns into \<open>ERR_NAMESPACE_KEY_CHILD\<close>); otherwise the file is
  created or replaced, with the directories above it.
\<close>

definition writeFile :: "disk \<Rightarrow> js_string \<Rightarrow> bytes \<Rightarrow> errno + disk" where
  "writeFile d p v =
     (if below_a_file d p then Inl EEXIST
      else if is_directory d p then Inl EISDIR
      else Inr (AList.update p v d))"

text \<open>
  Modelled from the spec: \<open>deleteFile\<close> of \<open>./helpers\<close> is not among the sources. It removes
  the file and reports whether it existed; deleting an absent file is no error.
\<close>

definition deleteFile :: "disk \<Rightarrow> js_string \<Rightarrow> errno + bool \<times> disk" where
  "deleteFile d p =
     (if below_a_file d p then Inl ENOTDIR
      else if is_directory d p then Inl EISDIR
      else Inr (is_file d p, AList.delete p d))"

text \<open>\<open>existsSync\<close>: a file or a directory is there.\<close>

definition existsSync :: "disk \<Rightarrow> js_string \<Rightarrow> bool" where
  "existsSync d p = (\<not> below_a_file d p \<and> (is_file d p \<or> is_directory d p))"

subsection \<open>\<open>path.join\<close>\<close>

text \<open>
  \<open>path.join\<close> and \<open>path.normalize\<close> of Node.js for POSIX: the non-empty arguments are
  joined by the separator and the result is normalised, where empty segments and \<open>.\<close> go
  away and \<open>..\<close> removes the segment before it.
\<close>

fun split_sep :: "'a \<Rightarrow> 'a list \<Rightarrow> 'a list list" where
  "split_sep s [] = [[]]"
| "split_sep s (c # cs) =
     (if c = s then [] # split_sep s cs
      else (case split_sep s cs of [] \<Rightarrow> [[c]] | seg # segs \<Rightarrow> (c # seg) # segs))"

fun join_sep :: "'a \<Rightarrow> 'a list list \<Rightarrow> 'a list" where
  "join_sep s [] = []"
| "join_sep s [seg] = seg"
| "join_sep s (seg # segs) = seg @ s # join_sep s segs"

fun normalizeString :: "bool \<Rightarrow> js_string list \<Rightarrow> js_string list \<Rightarrow> js_string list" where
  "normalizeString allowAboveRoot res [] = res"
| "normalizeString allowAboveRoot res (seg # segs) =
     (if seg = [] \<or> seg = js ''.'' then normalizeString allowAboveRoot res segs
      else if seg = js ''..'' then
        (if res \<noteq> [] \<and> last res \<noteq> js ''..'' then
           normalizeString allowAboveRoot (butlast res) segs
         else if allowAboveRoot then normalizeString allowAboveRoot (res @ [seg]) segs
         else normalizeString allowAboveRoot res segs)
      else normalizeString allowAboveRoot (res @ [seg]) segs)"

definition path_normalize :: "js_string \<Rightarrow> js_string" where
  "path_normalize p =
     (if p = [] then js ''.''
      else
        let isAbsolute = (hd p = slash);
            trailingSeparator = (last p = slash);
            q = join_sep slash (normalizeString (\<not> isAbsolute) [] (split_sep slash p))
        in if q = [] then
             (if isAbsolute then [slash] else if trailingSeparator then js ''./'' else js ''.'')
           else
             (if isAbsolute then [slash] else [])
               @ q @ (if trailingSeparator then [slash] else []))"

definition path_join :: "js_string list \<Rightarrow> js_string" where
  "path_join args =
     (let joined = join_sep slash (filter (\<lambda>a. a \<noteq> []) args)
      in if joined = [] then js ''.'' else path_normalize joined)"

subsection \<open>\<open>FileStorage\<close>\<close>

text \<open>
  The object holds the resolved root and the flag of the constructor. \<open>sanitisePath\<close> of
  the shared package, \<open>JSON.stringify\<close> and \<open>JSON.parse\<close> (\<open>None\<close> where it throws) are
  arguments of the methods that call them. \<open>listAllMaybeExpired\<close>, which walks the
  directory tree, is left out.
\<close>

record FileStorage =
  root :: js_string
  sanitise :: bool

record 'm FileMeta = "'m StoredMeta" +
  key' :: "js_string option"

definition metaSuffix :: js_string where
  "metaSuffix = js ''.meta.json''"

definition ALARM_KEY :: js_string where
  "ALARM_KEY = js ''__MINIFLARE_ALARM__''"

definition keyPath ::
    "(js_string \<Rightarrow> js_string) \<Rightarrow> FileStorage \<Rightarrow> js_string \<Rightarrow> js_string option \<times> bool" where
  "keyPath sanitisePath this k =
     (let sanitisedKey = (if sanitise this then sanitisePath k else k);
          filePath = path_join [root this, sanitisedKey]
      in (if startsWith filePath (root this) then Some filePath else None,
          sanitisedKey \<noteq> k))"

definition empty_FileMeta :: "'m FileMeta" where
  "empty_FileMeta = \<lparr>expiration = None, metadata = None, key' = None\<rparr>"

definition meta ::
    "(bytes \<Rightarrow> 'm FileMeta option) \<Rightarrow> disk \<Rightarrow> js_string \<Rightarrow> file_error + 'm FileMeta" where
  "meta parse d keyFilePath =
     (case readFile d (keyFilePath @ metaSuffix) of
        Inl e \<Rightarrow> Inl (Errno e)
      | Inr None \<Rightarrow> Inr empty_FileMeta
      | Inr (Some metaString) \<Rightarrow>
          if metaString = [] then Inr empty_FileMeta
          else (case parse metaString of None \<Rightarrow> Inl SyntaxError | Some m \<Rightarrow> Inr m))"

definition hasMaybeExpired ::
    "(js_string \<Rightarrow> js_string) \<Rightarrow> (bytes \<Rightarrow> 'm FileMeta option) \<Rightarrow> FileStorage \<Rightarrow> disk
       \<Rightarrow> js_string \<Rightarrow> file_error + 'm StoredMeta option" where
  "hasMaybeExpired sanitisePath parse this d k =
     (case keyPath sanitisePath this k of
        (None, sanitised) \<Rightarrow> Inr None
      | (Some filePath, sanitised) \<Rightarrow>
          if \<not> existsSync d filePath then Inr None
          else
            (case meta parse d filePath of
               Inl e \<Rightarrow> Inl e
             | Inr m \<Rightarrow> Inr (Some \<lparr>expiration = expiration m, metadata = metadata m\<rparr>)))"

definition getMaybeExpired ::
    "(js_string \<Rightarrow> js_string) \<Rightarrow> (bytes \<Rightarrow> 'm FileMeta option) \<Rightarrow> FileStorage \<Rightarrow> disk
       \<Rightarrow> js_string \<Rightarrow> file_error + 'm StoredValueMeta option" where
  "getMaybeExpired sanitisePath parse this d k =
     (case keyPath sanitisePath this k of
        (None, sanitised) \<Rightarrow> Inr None
      | (Some filePath, sanitised) \<Rightarrow>
          (case readFile d filePath of
             Inl e \<Rightarrow> if e = ENOTDIR then Inr None else Inl (Errno e)
           | Inr None \<Rightarrow> Inr None
           | Inr (Some v) \<Rightarrow>
               (case meta parse d filePath of
                  Inl e \<Rightarrow> if e = Errno ENOTDIR then Inr None else Inl e
                | Inr m \<Rightarrow>
                    Inr (Some \<lparr>expiration = expiration m, metadata = metadata m,
                               value' = v\<rparr>))))"

definition FileStorage_put ::
    "(js_string \<Rightarrow> js_string) \<Rightarrow> ('m FileMeta \<Rightarrow> bytes) \<Rightarrow> FileStorage \<Rightarrow> disk
       \<Rightarrow> js_string \<Rightarrow> 'm StoredValueMeta \<Rightarrow> (file_error + unit) \<times> disk" where
  "FileStorage_put sanitisePath stringify this d k stored =
     (case keyPath sanitisePath this k of
        (None, sanitised) \<Rightarrow> (Inl (FileStorageError ERR_TRAVERSAL), d)
      | (Some filePath, sanitised) \<Rightarrow>
          (case writeFile d filePath (value' stored) of
             Inl e \<Rightarrow>
               (if e \<noteq> EEXIST then Inl (Errno e)
                else Inl (FileStorageError ERR_NAMESPACE_KEY_CHILD), d)
           | Inr d1 \<Rightarrow>
               let metaFilePath = filePath @ metaSuffix in
               if expiration stored \<noteq> None \<or> metadata stored \<noteq> None \<or> sanitised then
                 (case writeFile d1 metaFilePath
                         (stringify \<lparr>expiration = expiration stored,
                                     metadata = metadata stored, key' = Some k\<rparr>) of
                    Inl e \<Rightarrow> (Inl (Errno e), d1)
                  | Inr d2 \<Rightarrow> (Inr (), d2))
               else
                 (case deleteFile d1 metaFilePath of
                    Inl e \<Rightarrow> (Inl (Errno e), d1)
                  | Inr (existed, d2) \<Rightarrow> (Inr (), d2))))"

definition deleteMaybeExpired ::
    "(js_string \<Rightarrow> js_string) \<Rightarrow> FileStorage \<Rightarrow> disk \<Rightarrow> js_string
       \<Rightarrow> (file_error + bool) \<times> disk" where
  "deleteMaybeExpired sanitisePath this d k =
     (case keyPath sanitisePath this k of
        (None, sanitised) \<Rightarrow> (Inr False, d)
      | (Some filePath, sanitised) \<Rightarrow>
          (case deleteFile d filePath of
             Inl e \<Rightarrow> (if e = ENOTDIR then Inr False else Inl (Errno e), d)
           | Inr (existed, d1) \<Rightarrow>
               (case deleteFile d1 (filePath @ metaSuffix) of
                  Inl e \<Rightarrow> (if e = ENOTDIR then Inr False else Inl (Errno e), d1)
                | Inr (existed2, d2) \<Rightarrow> (Inr existed, d2))))"

text \<open>
  \<open>getAlarm\<close> takes \<open>Number(new TextDecoder().decode(bytes))\<close> as the function \<open>toNumber\<close>,
  \<open>setAlarm\<close> takes \<open>String(scheduledTime)\<close> as the function \<open>toString\<close>; the numbers are
  of any type.
\<close>

definition getAlarm ::
    "(js_string \<Rightarrow> js_string) \<Rightarrow> (bytes \<Rightarrow> 'n) \<Rightarrow> FileStorage \<Rightarrow> disk
       \<Rightarrow> file_error + 'n option" where
  "getAlarm sanitisePath toNumber this d =
     (case keyPath sanitisePath this ALARM_KEY of
        (None, sanitised) \<Rightarrow> Inr None
      | (Some filePath, sanitised) \<Rightarrow>
          (case readFile d filePath of
             Inl e \<Rightarrow> if e = ENOTDIR then Inr None else Inl (Errno e)
           | Inr None \<Rightarrow> Inr None
           | Inr (Some v) \<Rightarrow> Inr (Some (toNumber v))))"

definition setAlarm ::
    "(js_string \<Rightarrow> js_string) \<Rightarrow> ('n \<Rightarrow> js_string) \<Rightarrow> FileStorage \<Rightarrow> disk \<Rightarrow> 'n
       \<Rightarrow> (file_error + unit) \<times> disk" where
  "setAlarm sanitisePath toString this d scheduledTime =
     (case keyPath sanitisePath this ALARM_KEY of
        (None, sanitised) \<Rightarrow> (Inl (FileStorageError ERR_TRAVERSAL), d)
      | (Some filePath, sanitised) \<Rightarrow>
          (case writeFile d filePath (encode (toString scheduledTime)) of
             Inl e \<Rightarrow>
               (if e \<noteq> EEXIST then Inl (Errno e)
                else Inl (FileStorageError ERR_NAMESPACE_KEY_CHILD), d)
           | Inr d1 \<Rightarrow> (Inr (), d1)))"

definition deleteAlarm ::
    "(js_string \<Rightarrow> js_string) \<Rightarrow> FileStorage \<Rightarrow> disk \<Rightarrow> (file_error + unit) \<times> disk" where
  "deleteAlarm sanitisePath this d =
     (case keyPath sanitisePath this ALARM_KEY of
        (None, sanitised) \<Rightarrow> (Inr (), d)
      | (Some filePath, sanitised) \<Rightarrow>
          (case deleteFile d filePath of
             Inl e \<Rightarrow> (if e = ENOTDIR then Inr () else Inl (Errno e), d)
           | Inr (existed, d1) \<Rightarrow>
               (case deleteFile d1 (filePath @ metaSuffix) of
                  Inl e \<Rightarrow> (if e = ENOTDIR then Inr () else Inl (Errno e), d1)
                | Inr (existed2, d2) \<Rightarrow> (Inr (), d2))))"

text \<open>
  A path lies inside the root directory when it is the root or a path below it; this is
  what "outside the storage root" is measured against.
\<close>

definition inside_root :: "js_string \<Rightarrow> js_string \<Rightarrow> bool" where
  "inside_root r p = (p = r \<or> startsWith p (r @ [slash]))"

text \<open>
  A key of the data model: not empty, not \<open>"."\<close> or \<open>".."\<close>, at most 512 bytes in UTF-8.
\<close>

definition valid_key :: "js_string \<Rightarrow> bool" where
  "valid_key k =
     (k \<noteq> js '''' \<and> k \<noteq> js ''.'' \<and> k \<noteq> js ''..'' \<and> length (encode k) \<le> MAX_KEY_SIZE)"

text \<open>
  The errors of the class of invalid input: the \<open>TypeError\<close> of a malformed argument and
  the errors with a status between 400 and 499.
\<close>

fun is_InvalidInput :: "error \<Rightarrow> bool" where
  "is_InvalidInput (TypeError m) = True"
| "is_InvalidInput (R2Error m status msg) = (400 \<le> status \<and> status < 500)"

text \<open>
  A store as \<open>put\<close> fills it: one entry per key, each with metadata that names its key.
  \<open>listed_keys\<close> are the names that the storage enumerates for a prefix, and
  \<open>page_options\<close> the options of a listing with a prefix, a limit and a cursor only.
\<close>

definition r2_store :: "storage \<Rightarrow> bool" where
  "r2_store st =
     (distinct (map fst (entries st))
      \<and> list_all (\<lambda>(k, v). map_option key (metadata v) = Some k) (entries st))"

definition listed_keys :: "storage \<Rightarrow> js_string \<Rightarrow> js_string list" where
  "listed_keys st pre = map name (matching_keys st pre)"

definition page_options :: "js_string \<Rightarrow> nat \<Rightarrow> js_string option \<Rightarrow> R2ListOptions" where
  "page_options pre n cur =
     \<lparr>limit = Some (Num (int n)), prefix = Some pre, cursor_opt = cur, delimiter = None,
      include_opt = None\<rparr>"

text \<open>What a listing returned, as the keys of its objects, its flag and its cursor.\<close>

definition page_summary ::
    "error + R2Objects \<Rightarrow> (js_string list \<times> bool \<times> js_string option) option" where
  "page_summary res =
     (case res of
        Inl e \<Rightarrow> None
      | Inr r \<Rightarrow> Some (map key (objects r), truncated r, cursor r))"

section \<open>Example inputs\<close>

text \<open>
  The stores of the examples are built by \<open>put\<close> from the empty storage, with the hex
  rendering of the bytes as the digest.
\<close>

definition empty_storage :: storage where
  "empty_storage = \<lparr>entries = [], calls = []\<rparr>"

definition no_get_options :: R2GetOptions where
  "no_get_options = \<lparr>onlyIf = None, range' = None\<rparr>"

definition no_put_options :: R2PutOptions where
  "no_put_options =
     \<lparr>onlyIf = None, httpMetadata_opt = None, customMetadata_opt = None, md5 = None\<rparr>"

definition no_list_options :: R2ListOptions where
  "no_list_options =
     \<lparr>limit = None, prefix = None, cursor_opt = None, delimiter = None, include_opt = None\<rparr>"

definition put_text :: "storage \<Rightarrow> string \<Rightarrow> string \<Rightarrow> storage" where
  "put_text st k txt =
     snd (put toString_hex (js ''v1'') 0 st (js k) (ValString (js txt)) no_put_options)"

definition get_if_etagMatches :: "js_string \<Rightarrow> R2GetOptions" where
  "get_if_etagMatches e =
     \<lparr>onlyIf = Some (empty_conditional\<lparr>etagMatches := Some (EtagString e)\<rparr>), range' = None\<rparr>"

definition put_if_etagMatches :: "js_string \<Rightarrow> R2PutOptions" where
  "put_if_etagMatches e =
     no_put_options\<lparr>onlyIf := Some (empty_conditional\<lparr>etagMatches := Some (EtagString e)\<rparr>)\<rparr>"

definition store_empty_object :: storage where
  "store_empty_object =
     snd (put toString_hex (js ''v1'') 0 empty_storage (js ''k'') ValNull no_put_options)"

definition store_a_b_a_c_d :: storage where
  "store_a_b_a_c_d =
     put_text (put_text (put_text empty_storage ''a/b'' ''1'') ''a/c'' ''2'') ''d'' ''3''"

definition store_k1_to_k4 :: storage where
  "store_k1_to_k4 =
     put_text (put_text (put_text (put_text empty_storage ''k3'' ''3'') ''k1'' ''1'')
       ''k4'' ''4'') ''k2'' ''2''"

text \<open>
  A file storage that does not sanitise its keys, and numbers written in decimal digits
  for the alarm.
\<close>

definition unsanitised_storage :: FileStorage where
  "unsanitised_storage = \<lparr>root = js ''/data/store'', sanitise = False\<rparr>"

definition bytes_only :: "bytes \<Rightarrow> unit StoredValueMeta" where
  "bytes_only bs = \<lparr>expiration = None, metadata = None, value' = bs\<rparr>"

definition number_of_digits :: "bytes \<Rightarrow> nat" where
  "number_of_digits bs = foldl (\<lambda>n b. 10 * n + (unat b - 48)) 0 bs"

definition digits_of_number :: "nat \<Rightarrow> js_string" where
  "digits_of_number n = js (dec n)"

section \<open>Evaluation\<close>

lemmas gateway_defs =
  put_def get_def head_def delete_def validateKey_def js_def validateR2PutOptions_def
  validateR2GetOptions_def validateOnlyIf_def validateHttpMetadata_def defined_and_not_isNaN_def
  throwR2Error_def Storage_meta_def Storage_get_def Storage_put_def Storage_delete_def
  logged_def metadata_of_def precondition_failed_def build_metadata_def parseOnlyIf_def
  parseHttpMetadata_def read_value_def
  MAX_KEY_SIZE_def MAX_VALUE_SIZE_def MAX_LIST_KEYS_def Let_def utf8_of_code_point_def
  scalar_of_unit_def is_lead_surrogate_def is_trail_surrogate_def toString_hex_def
  hex_digit_def empty_httpMetadata_def testR2Conditional_def clause_holds_def
  empty_conditional_def empty_range_def

lemmas example_defs =
  store_a_b_a_c_d_def store_empty_object_def store_k1_to_k4_def
  put_text_def no_put_options_def no_get_options_def
  no_list_options_def empty_storage_def get_if_etagMatches_def put_if_etagMatches_def

lemmas list_defs =
  list_objects_def list_inner_def Storage_list_def matching_keys_def startsWith_def
  split_first_def set_add_def only_included_def List.map_filter_def list_loop.simps

section \<open>Key validation\<close>

lemma validateKey_invalid:
  assumes "k = js '''' \<or> k = js ''.'' \<or> k = js ''..'' \<or> MAX_KEY_SIZE < length (encode k)"
  shows "\<exists>e. validateKey m k = Some e \<and> is_InvalidInput e"
  using assms by (auto simp: validateKey_def throwR2Error_def Let_def)

text \<open>
  C8. For every key that is empty, \<open>"."\<close>, \<open>".."\<close> or longer than 512 bytes in UTF-8, each of
  \<open>head\<close>, \<open>get\<close>, \<open>put\<close> and \<open>delete\<close> throws an error of the class of invalid input and
  leaves the storage as it was, with no call made on it.
\<close>

theorem invalid_key_rejected_without_io:
  assumes "k = js '''' \<or> k = js ''.'' \<or> k = js ''..'' \<or> MAX_KEY_SIZE < length (encode k)"
  shows "(\<exists>e. head st k = (Inl e, st) \<and> is_InvalidInput e)
       \<and> (\<exists>e. get st k gopts = (Inl e, st) \<and> is_InvalidInput e)
       \<and> (\<exists>e. put createMD5 ver now st k v popts = (Inl e, st) \<and> is_InvalidInput e)
       \<and> (\<exists>e. delete st k = (Inl e, st) \<and> is_InvalidInput e)"
proof -
  obtain e1 where "validateKey HEAD k = Some e1" "is_InvalidInput e1"
    using validateKey_invalid [OF assms] by blast
  moreover obtain e2 where "validateKey GET k = Some e2" "is_InvalidInput e2"
    using validateKey_invalid [OF assms] by blast
  moreover obtain e3 where "validateKey PUT k = Some e3" "is_InvalidInput e3"
    using validateKey_invalid [OF assms] by blast
  moreover obtain e4 where "validateKey DELETE k = Some e4" "is_InvalidInput e4"
    using validateKey_invalid [OF assms] by blast
  ultimately show ?thesis
    by (simp add: head_def get_def put_def delete_def Let_def)
qed

theorem invalid_key_rejected_without_io_witness:
  "head store_a_b_a_c_d (js ''..'')
     = (Inl (TypeError ''\"..\" is not allowed as a key name.''), store_a_b_a_c_d)
   \<and> get store_a_b_a_c_d (js ''..'') no_get_options
     = (Inl (TypeError ''\"..\" is not allowed as a key name.''), store_a_b_a_c_d)
   \<and> put toString_hex [] 0 store_a_b_a_c_d (js ''..'') ValNull no_put_options
     = (Inl (TypeError ''\"..\" is not allowed as a key name.''), store_a_b_a_c_d)
   \<and> delete store_a_b_a_c_d (js ''..'')
     = (Inl (TypeError ''\"..\" is not allowed as a key name.''), store_a_b_a_c_d)"
  using invalid_key_rejected_without_io
    [of "js ''..''" store_a_b_a_c_d no_get_options toString_hex "[]" 0 ValNull no_put_options]
  by (simp add: head_def get_def put_def delete_def validateKey_def js_def)

section \<open>Validation of the range\<close>

lemma validateR2GetOptions_accepts_iff:
  "validateR2GetOptions options = None \<longleftrightarrow>
     (case range' options of
        None \<Rightarrow> True
      | Some r \<Rightarrow> offset r \<in> {None, Some NaN} \<and> length' r \<in> {None, Some NaN}
                   \<and> suffix r \<in> {None, Some NaN})"
  by (auto simp: validateR2GetOptions_def validateOnlyIf_def defined_and_not_isNaN_def
      throwR2Error_def empty_range_def elim: isNaN.elims split: option.splits)

text \<open>
  C4. A \<open>get\<close> whose range gives the numbers 0 and 1 as offset and length is rejected with
  the error 400 "offset must be a number.", before the storage is called, while a range
  whose offset is \<open>NaN\<close> passes the validation: the check of each field is inverted.
\<close>

theorem numeric_range_rejected:
  "get store_a_b_a_c_d (js ''d'')
      \<lparr>onlyIf = None,
       range' = Some \<lparr>offset = Some (Num 0), length' = Some (Num 1), suffix = None\<rparr>\<rparr>
     = (Inl (R2Error GET 400 ''offset must be a number.''), store_a_b_a_c_d)
   \<and> validateR2GetOptions
        \<lparr>onlyIf = None, range' = Some \<lparr>offset = Some NaN, length' = None, suffix = None\<rparr>\<rparr>
     = None"
  by (simp add: get_def validateKey_def js_def MAX_KEY_SIZE_def utf8_of_code_point_def
      scalar_of_unit_def is_lead_surrogate_def is_trail_surrogate_def
      validateR2GetOptions_def validateOnlyIf_def defined_and_not_isNaN_def throwR2Error_def)

section \<open>Grouping by delimiter\<close>

text \<open>
  C2. The store holds exactly the keys \<open>"a/b"\<close>, \<open>"a/c"\<close> and \<open>"d"\<close>. Listed with the
  delimiter \<open>"/"\<close> and no prefix, the delimited prefixes are exactly \<open>"a/"\<close>, but the
  objects are empty: the key \<open>"d"\<close> is dropped with the keys that were grouped.
\<close>

theorem delimiter_listing_drops_plain_key:
  "map fst (entries store_a_b_a_c_d) = [js ''a/b'', js ''a/c'', js ''d'']
   \<and> list_objects store_a_b_a_c_d (no_list_options\<lparr>delimiter := Some (js ''/'')\<rparr>)
     = Inr \<lparr>objects = [], truncated = False, cursor = None,
            delimitedPrefixes = [js ''a/'']\<rparr>"
  by (simp add: gateway_defs example_defs list_defs)

section \<open>Facts about \<open>put\<close> and \<open>get\<close>\<close>

lemma validateKey_valid: "valid_key k \<Longrightarrow> validateKey m k = None"
  by (simp add: valid_key_def validateKey_def Let_def)

lemma validateR2PutOptions_passes: "validateR2PutOptions options = None"
  by (simp add: validateR2PutOptions_def validateOnlyIf_def validateHttpMetadata_def)

lemma map_of_Storage_put:
  "map_of (entries (Storage_put st k v)) = (map_of (entries st))(k \<mapsto> v)"
  by (simp add: Storage_put_def logged_def update_conv')

lemma entries_logged: "entries (logged st c) = entries st"
  by (simp add: logged_def)

text \<open>A \<open>put\<close> that passes every check stores the bytes with the metadata it returns.\<close>

lemma put_commits:
  assumes "valid_key k"
    and "\<not> precondition_failed (parseOnlyIf (onlyIf options)) (fst (Storage_meta st k))"
    and "to_Uint8Array v = Some b" and "length b \<le> MAX_VALUE_SIZE"
    and "case md5 options of None \<Rightarrow> True | Some h \<Rightarrow> md5_as_string h = digest b"
    and "md = build_metadata k (length b) (digest b) ver now
                (parseHttpMetadata (httpMetadata_opt options))
                (case customMetadata_opt options of None \<Rightarrow> [] | Some cm \<Rightarrow> cm)"
  shows "put digest ver now st k v options =
          (Inr (Some md),
           Storage_put (logged st (CallMeta k)) k
             \<lparr>expiration = None, metadata = Some md, value' = b\<rparr>)"
  using assms
  by (simp add: put_def validateKey_valid validateR2PutOptions_passes Storage_meta_def Let_def
      split: option.splits)


lemma precondition_empty: "\<not> precondition_failed (parseOnlyIf None) m"
  by (simp add: precondition_failed_def parseOnlyIf_def testR2Conditional_def
      clause_holds_def empty_conditional_def split: option.splits)

text \<open>A \<open>get\<close> without a range, of a key that is stored with metadata.\<close>

lemma get_stored:
  assumes "valid_key k" and "map_of (entries st) k = Some s" and "metadata s = Some md"
  shows "get st k \<lparr>onlyIf = c, range' = None\<rparr> =
           (if testR2Conditional (parseOnlyIf c) md \<or> size' md = 0
            then (Inr (R2Object md), logged st (CallMeta k))
            else (Inr (R2ObjectBody md (value' s)),
                  logged (logged st (CallMeta k)) (CallGet k)))"
  using assms
  by (simp add: get_def validateKey_valid validateR2GetOptions_def validateOnlyIf_def
      defined_and_not_isNaN_def empty_range_def Storage_meta_def metadata_of_def
      read_value_def Storage_get_def entries_logged Let_def)

lemma test_etagMatches:
  "testR2Conditional (empty_conditional\<lparr>etagMatches := Some (EtagString e)\<rparr>) md
     \<longleftrightarrow> e \<noteq> etag md"
  by (simp add: testR2Conditional_def clause_holds_def empty_conditional_def)

section \<open>Round trip\<close>

text \<open>
  C1, as the claim states it, fails for the empty payload: \<open>put\<close> of \<open>null\<close> under a valid
  key stores an object of size 0, and \<open>get\<close> of that key returns the metadata alone, an
  \<open>R2Object\<close> without a body.
\<close>

theorem round_trip_empty_payload_has_no_body:
  "valid_key (js ''k'') \<and> to_Uint8Array ValNull = Some []
   \<and> put toString_hex (js ''v1'') 0 empty_storage (js ''k'') ValNull no_put_options
       = (Inr (Some (build_metadata (js ''k'') 0 [] (js ''v1'') 0 empty_httpMetadata [])),
          store_empty_object)
   \<and> fst (get store_empty_object (js ''k'') no_get_options)
       = Inr (R2Object (build_metadata (js ''k'') 0 [] (js ''v1'') 0 empty_httpMetadata []))"
  by (simp add: valid_key_def gateway_defs example_defs)

text \<open>
  C1, amended. For every valid key and every payload whose canonical bytes \<open>b\<close> are within
  the size limit, \<open>put\<close> without options returns metadata whose size is the length of \<open>b\<close>
  and whose etag is the digest of \<open>b\<close>, and the \<open>get\<close> that follows returns that metadata,
  with the body \<open>b\<close> when \<open>b\<close> is not empty and without a body when it is.
\<close>

theorem put_get_round_trip:
  assumes "valid_key k" and "to_Uint8Array v = Some b" and "length b \<le> MAX_VALUE_SIZE"
  shows "\<exists>md st1 st2.
           put digest ver now st k v no_put_options = (Inr (Some md), st1)
         \<and> size' md = length b \<and> etag md = digest b
         \<and> get st1 k no_get_options
             = (Inr (if b = [] then R2Object md else R2ObjectBody md b), st2)"
proof -
  define md where "md = build_metadata k (length b) (digest b) ver now empty_httpMetadata []"
  define st1 where "st1 = Storage_put (logged st (CallMeta k)) k
                            \<lparr>expiration = None, metadata = Some md, value' = b\<rparr>"
  have p: "put digest ver now st k v no_put_options = (Inr (Some md), st1)"
    using put_commits [of k no_put_options st v b digest md ver now] assms
      precondition_empty
    by (simp add: no_put_options_def md_def st1_def parseHttpMetadata_def)
  have s: "map_of (entries st1) k = Some \<lparr>expiration = None, metadata = Some md, value' = b\<rparr>"
    by (simp add: st1_def map_of_Storage_put)
  have t: "\<not> testR2Conditional (parseOnlyIf None) md"
    by (simp add: parseOnlyIf_def testR2Conditional_def clause_holds_def empty_conditional_def)
  have g: "get st1 k no_get_options =
             (if size' md = 0 then (Inr (R2Object md), logged st1 (CallMeta k))
              else (Inr (R2ObjectBody md b), logged (logged st1 (CallMeta k)) (CallGet k)))"
    unfolding no_get_options_def using get_stored [OF assms(1) s, of md None] t by simp
  have f: "size' md = length b" "etag md = digest b"
    by (simp_all add: md_def build_metadata_def)
  show ?thesis
    using p g f by auto
qed

theorem put_get_round_trip_witness:
  "valid_key (js ''k'') \<and> to_Uint8Array (ValString (js ''hello'')) = Some (encode (js ''hello''))
   \<and> length (encode (js ''hello'')) \<le> MAX_VALUE_SIZE
   \<and> (\<exists>md st1 st2.
         put toString_hex (js ''v1'') 0 empty_storage (js ''k'') (ValString (js ''hello''))
             no_put_options = (Inr (Some md), st1)
       \<and> size' md = length (encode (js ''hello''))
       \<and> etag md = toString_hex (encode (js ''hello''))
       \<and> get st1 (js ''k'') no_get_options
           = (Inr (R2ObjectBody md (encode (js ''hello''))), st2))"
  using put_get_round_trip
    [where k = "js ''k''" and v = "ValString (js ''hello'')" and b = "encode (js ''hello'')"
       and digest = toString_hex and ver = "js ''v1''" and now = 0 and st = empty_storage]
  by (simp add: valid_key_def js_def MAX_KEY_SIZE_def MAX_VALUE_SIZE_def utf8_of_code_point_def
      scalar_of_unit_def is_lead_surrogate_def is_trail_surrogate_def)

section \<open>Conditional put against a missing object\<close>




section \<open>Conditional get\<close>

text \<open>
  C5, as the claim states it, fails for an object of size 0: the stored object has the
  etag \<open>""\<close> of the example digest, and \<open>get\<close> with \<open>etagMatches\<close> of that etag returns the
  metadata without a body.
\<close>

theorem matching_get_of_empty_object_has_no_body:
  "map_of (entries store_empty_object) (js ''k'')
     = Some \<lparr>expiration = None,
             metadata = Some (build_metadata (js ''k'') 0 [] (js ''v1'') 0 empty_httpMetadata []),
             value' = []\<rparr>
   \<and> etag (build_metadata (js ''k'') 0 [] (js ''v1'') 0 empty_httpMetadata []) = []
   \<and> fst (get store_empty_object (js ''k'') (get_if_etagMatches []))
       = Inr (R2Object (build_metadata (js ''k'') 0 [] (js ''v1'') 0 empty_httpMetadata []))"
  by (simp add: gateway_defs example_defs)

text \<open>
  C5, amended. For every object stored under a valid key with metadata \<open>md\<close>, \<open>get\<close> with
  \<open>etagMatches\<close> of its etag returns the metadata with the full stored value when the
  size in the metadata is not 0, and the metadata without a body when it is 0; \<open>get\<close>
  with \<open>etagMatches\<close> of any other etag returns the metadata without a body.
\<close>

theorem conditional_get_by_etag:
  assumes "valid_key k" and "map_of (entries st) k = Some s" and "metadata s = Some md"
    and "other \<noteq> etag md"
  shows "get st k (get_if_etagMatches (etag md)) =
           (if size' md = 0 then (Inr (R2Object md), logged st (CallMeta k))
            else (Inr (R2ObjectBody md (value' s)),
                  logged (logged st (CallMeta k)) (CallGet k)))
       \<and> get st k (get_if_etagMatches other) = (Inr (R2Object md), logged st (CallMeta k))"
  using assms by (simp add: get_if_etagMatches_def get_stored parseOnlyIf_def test_etagMatches)

theorem conditional_get_by_etag_witness:
  "valid_key (js ''d'')
   \<and> fst (get store_a_b_a_c_d (js ''d'') (get_if_etagMatches (js ''33'')))
       = Inr (R2ObjectBody (build_metadata (js ''d'') 1 (js ''33'') (js ''v1'') 0
                              empty_httpMetadata []) [0x33])
   \<and> fst (get store_a_b_a_c_d (js ''d'') (get_if_etagMatches (js ''other'')))
       = Inr (R2Object (build_metadata (js ''d'') 1 (js ''33'') (js ''v1'') 0
                          empty_httpMetadata []))"
  using conditional_get_by_etag
    [where k = "js ''d''" and st = store_a_b_a_c_d and other = "js ''other''"
       and md = "build_metadata (js ''d'') 1 (js ''33'') (js ''v1'') 0 empty_httpMetadata []"
       and s = "\<lparr>expiration = None,
                 metadata = Some (build_metadata (js ''d'') 1 (js ''33'') (js ''v1'') 0
                                    empty_httpMetadata []),
                 value' = [0x33]\<rparr>"]
  by (simp add: valid_key_def gateway_defs example_defs)

section \<open>Integrity check\<close>

text \<open>
  C7, as the claim states it, fails: the stored object \<open>"d"\<close> has the etag \<open>"33"\<close>, and a
  \<open>put\<close> with \<open>onlyIf.etagMatches\<close> of \<open>"other"\<close> and a digest \<open>"00"\<close> that differs from the
  digest \<open>"7a7a"\<close> of the payload does not fail; it returns absent, after the one lookup of
  the metadata, since the conditional is tested before the digest.
\<close>

theorem mismatched_digest_behind_failed_conditional:
  "to_Uint8Array (ValString (js ''zz'')) = Some [0x7A, 0x7A]
   \<and> toString_hex [0x7A, 0x7A] = js ''7a7a''
   \<and> put toString_hex (js ''v2'') 1 store_a_b_a_c_d (js ''d'') (ValString (js ''zz''))
        ((put_if_etagMatches (js ''other''))\<lparr>md5 := Some (Md5String (js ''00''))\<rparr>)
       = (Inr None, logged store_a_b_a_c_d (CallMeta (js ''d'')))"
  by (simp add: gateway_defs example_defs)

text \<open>
  C7, amended. For every \<open>put\<close> that supplies a digest (a hex string, or raw bytes turned
  into hex) different from the digest of the canonical bytes of the payload, the stored
  entries are as before and no put is made on the storage; and when the key is valid, the
  conditional does not hold the \<open>put\<close> back and the bytes are within the size limit, the
  \<open>put\<close> fails with the error 400 that the digest did not match.
\<close>

theorem mismatched_digest_writes_nothing:
  assumes "to_Uint8Array v = Some b" and "md5 options = Some h"
    and "md5_as_string h \<noteq> digest b"
  shows "entries (snd (put digest ver now st k v options)) = entries st
       \<and> CallPut k \<notin> set (drop (length (calls st))
                             (calls (snd (put digest ver now st k v options))))
       \<and> (valid_key k
            \<and> \<not> precondition_failed (parseOnlyIf (onlyIf options)) (fst (Storage_meta st k))
            \<and> length b \<le> MAX_VALUE_SIZE \<longrightarrow>
          fst (put digest ver now st k v options)
            = Inl (R2Error PUT 400
                ''The Content-MD5 you specified did not match what we received.''))"
  using assms
  by (auto simp: put_def validateKey_valid validateR2PutOptions_passes Storage_meta_def Let_def
      entries_logged logged_def throwR2Error_def split: option.splits)

theorem mismatched_digest_writes_nothing_witness:
  "to_Uint8Array (ValString (js ''zz'')) = Some [0x7A, 0x7A]
   \<and> md5_as_string (Md5ArrayBuffer [0x00]) = js ''00''
   \<and> toString_hex [0x7A, 0x7A] = js ''7a7a''
   \<and> valid_key (js ''d'')
   \<and> put toString_hex (js ''v2'') 1 store_a_b_a_c_d (js ''d'') (ValString (js ''zz''))
        (no_put_options\<lparr>md5 := Some (Md5ArrayBuffer [0x00])\<rparr>)
       = (Inl (R2Error PUT 400
             ''The Content-MD5 you specified did not match what we received.''),
          logged store_a_b_a_c_d (CallMeta (js ''d'')))"
  using mismatched_digest_writes_nothing
    [where v = "ValString (js ''zz'')" and b = "[0x7A, 0x7A]"
       and options = "no_put_options\<lparr>md5 := Some (Md5ArrayBuffer [0x00])\<rparr>"
       and h = "Md5ArrayBuffer [0x00]" and digest = toString_hex and st = store_a_b_a_c_d
       and k = "js ''d''" and ver = "js ''v2''" and now = 1]
  by (simp add: valid_key_def gateway_defs example_defs)

section \<open>Paging\<close>

lemma filter_delimited_None: "filter_delimited pre None mds dps = (mds, dps)"
  by (induction mds) simp_all

lemma key_only_included: "key (only_included inc md) = key md"
  by (simp add: only_included_def Let_def)

lemma map_insort_key: "map f (insort_key f x xs) = insort (f x) (map f xs)"
  by (induction xs) simp_all

lemma map_sort_key: "map f (sort_key f xs) = sort (map f xs)"
  by (induction xs) (simp_all add: map_insort_key)

lemma listed_keys_eq:
  "listed_keys st pre = sort (filter (\<lambda>k. startsWith k pre) (map fst (entries st)))"
proof -
  have a: "name \<circ> (\<lambda>(k, v). \<lparr>expiration = expiration v, metadata = metadata v, name = k\<rparr>)
             = fst"
    by (auto simp: fun_eq_iff)
  have b: "map fst (filter (\<lambda>(k, v). startsWith k pre) es)
          = filter (\<lambda>k. startsWith k pre) (map fst es)"
    for es :: "(js_string \<times> R2ObjectMetadata StoredValueMeta) list"
    by (induction es) auto
  show ?thesis
    by (simp add: listed_keys_def matching_keys_def map_sort_key a b)
qed

lemma listed_keys_sorted:
  assumes "r2_store st"
  shows "sorted (listed_keys st pre)" and "distinct (listed_keys st pre)"
    and "set (listed_keys st pre) = {k \<in> fst ` set (entries st). startsWith k pre}"
  using assms by (auto simp: listed_keys_eq r2_store_def)

lemma matching_strict:
  assumes "r2_store st"
  shows "sorted_wrt (\<lambda>a b. name a < name b) (matching_keys st pre)"
proof -
  have "sorted_wrt (<) (map name (matching_keys st pre))"
    using listed_keys_sorted [OF assms, of pre] by (simp add: strict_sorted_iff listed_keys_def)
  then show ?thesis by (simp add: sorted_wrt_map)
qed

lemma filter_after_nth:
  fixes f :: "'a \<Rightarrow> 'b::order"
  assumes "sorted_wrt (\<lambda>a b. f a < f b) xs" and "n < length xs"
  shows "filter (\<lambda>e. f (xs ! n) < f e) xs = drop (Suc n) xs"
  using assms
proof (induction xs arbitrary: n)
  case Nil
  then show ?case by simp
next
  case (Cons x xs)
  show ?case
  proof (cases n)
    case 0
    have "\<forall>e \<in> set xs. f x < f e" using Cons.prems by simp
    then have "filter (\<lambda>e. f x < f e) xs = xs" by (simp add: filter_id_conv)
    with 0 show ?thesis by simp
  next
    case (Suc m)
    have m: "m < length xs" using Cons.prems Suc by simp
    have "f x < f (xs ! m)" using Cons.prems m by simp
    then have "\<not> f (xs ! m) < f x" by simp
    with Suc Cons.IH [of m] Cons.prems m show ?thesis by simp
  qed
qed

lemma matching_metadata:
  assumes "r2_store st" and "e \<in> set (matching_keys st pre)"
  shows "\<exists>md. metadata e = Some md \<and> key md = name e"
proof -
  from assms(2) obtain k v where kv: "(k, v) \<in> set (entries st)"
    and e: "e = \<lparr>expiration = expiration v, metadata = metadata v, name = k\<rparr>"
    by (auto simp: matching_keys_def)
  from assms(1) kv have "map_option key (metadata v) = Some k"
    by (auto simp: r2_store_def list_all_iff)
  with e show ?thesis by auto
qed

lemma map_filter_metadata_keys:
  assumes "\<forall>e \<in> set xs. \<exists>md. metadata e = Some md \<and> key md = name e"
  shows "map key (List.map_filter metadata xs) = map name xs"
  using assms by (induction xs) (auto simp: List.map_filter_simps)

lemma list_inner_plain:
  assumes "r2_store st"
  shows "\<exists>objs. list_inner st pre lim inc dps None cur
           = ((objs, snd (Storage_list st pre lim cur)), dps)
         \<and> map key objs = map name (fst (Storage_list st pre lim cur))"
proof -
  obtain page cur' where sl: "Storage_list st pre lim cur = (page, cur')"
    by (cases "Storage_list st pre lim cur")
  have "set page \<subseteq> set (matching_keys st pre)"
    using sl by (auto simp: Storage_list_def Let_def split: option.splits dest: in_set_takeD)
  then have "\<forall>e \<in> set page. \<exists>md. metadata e = Some md \<and> key md = name e"
    using matching_metadata [OF assms] by blast
  then have "map key (List.map_filter metadata page) = map name page"
    by (rule map_filter_metadata_keys)
  then show ?thesis
    by (simp add: list_inner_def sl filter_delimited_None key_only_included comp_def)
qed

lemma list_loop_one_page:
  assumes "r2_store st" and "0 < lim" and "length (fst (Storage_list st pre lim cur)) = lim"
  shows "\<exists>objs. list_loop st pre lim inc None [] [] cur
           = (objs, [], snd (Storage_list st pre lim cur))
         \<and> map key objs = map name (fst (Storage_list st pre lim cur))"
proof -
  obtain objs where li: "list_inner st pre lim inc [] None cur
           = ((objs, snd (Storage_list st pre lim cur)), [])"
    and k: "map key objs = map name (fst (Storage_list st pre lim cur))"
    using list_inner_plain [OF assms(1)] by blast
  have len: "length objs = lim"
    using k assms(3) by (metis length_map)
  then have ne: "objs \<noteq> []" using assms(2) by auto
  have "list_loop st pre lim inc None [] [] cur
          = list_loop st pre lim inc None objs [] (snd (Storage_list st pre lim cur))"
    using assms(2) li ne by (subst list_loop.simps) simp
  also have "\<dots> = (objs, [], snd (Storage_list st pre lim cur))"
    using len by (subst list_loop.simps) simp
  finally show ?thesis using k by blast
qed


lemma last_take_nth:
  assumes "0 < n" and "n \<le> length xs"
  shows "last (take n xs) = xs ! (n - 1)"
proof -
  have "take n xs \<noteq> []" using assms by auto
  then have "last (take n xs) = take n xs ! (length (take n xs) - 1)"
    by (rule last_conv_nth)
  also have "\<dots> = xs ! (n - 1)" using assms by (simp add: min_def)
  finally show ?thesis .
qed

lemma Storage_list_first:
  assumes "0 < n" and "n < length (listed_keys st pre)"
  shows "Storage_list st pre n None
           = (take n (matching_keys st pre), Some (listed_keys st pre ! (n - 1)))"
proof -
  have l: "n < length (matching_keys st pre)" using assms(2) by (simp add: listed_keys_def)
  then have "take n (matching_keys st pre) \<noteq> []" using assms(1) by auto
  moreover have "name (last (take n (matching_keys st pre))) = listed_keys st pre ! (n - 1)"
    using assms(1) l by (simp add: last_take_nth listed_keys_def)
  ultimately show ?thesis using l by (simp add: Storage_list_def Let_def)
qed

lemma Storage_list_second:
  assumes "r2_store st" and "0 < n" and "2 * n \<le> length (listed_keys st pre)"
  shows "Storage_list st pre n (Some (listed_keys st pre ! (n - 1)))
           = (take n (drop n (matching_keys st pre)),
              if 2 * n < length (listed_keys st pre)
              then Some (listed_keys st pre ! (2 * n - 1)) else None)"
proof -
  let ?m = "matching_keys st pre"
  have l: "2 * n \<le> length ?m" using assms(3) by (simp add: listed_keys_def)
  have c: "listed_keys st pre ! (n - 1) = name (?m ! (n - 1))"
    using assms(2) l by (simp add: listed_keys_def)
  have "filter (\<lambda>e. name (?m ! (n - 1)) < name e) ?m = drop (Suc (n - 1)) ?m"
    using filter_after_nth [OF matching_strict [OF assms(1)], of "n - 1" pre] assms(2) l by simp
  then have r: "filter (\<lambda>e. listed_keys st pre ! (n - 1) < name e) ?m = drop n ?m"
    using assms(2) c by simp
  have ne: "take n (drop n ?m) \<noteq> []" using assms(2) l by auto
  have "last (take n (drop n ?m)) = drop n ?m ! (n - 1)"
    using assms(2) l by (simp add: last_take_nth)
  also have "\<dots> = ?m ! (n + (n - 1))"
    using l by simp
  also have "n + (n - 1) = 2 * n - 1"
    using assms(2) by simp
  finally have la: "name (last (take n (drop n ?m))) = listed_keys st pre ! (2 * n - 1)"
    using assms(2) l by (simp add: listed_keys_def)
  have len: "length (listed_keys st pre) = length ?m" by (simp add: listed_keys_def)
  show ?thesis
    using r ne la l by (auto simp: Storage_list_def Let_def len)
qed

lemma list_objects_truncated:
  "list_objects st options = Inr r \<Longrightarrow> truncated r = (cursor r \<noteq> None)"
  by (auto simp: list_objects_def Let_def split: js_number.splits if_splits prod.splits)

text \<open>
  Full pages. In a store as \<open>put\<close> fills it, let \<open>ks\<close> be the keys with the prefix, which
  are in ascending order and distinct, and let the limit \<open>n\<close> be less than their number.
  The first listing returns the first \<open>n\<close> keys, is truncated and has the cursor of the
  last of them. When at least \<open>n\<close> keys remain, the listing resumed with that cursor
  returns the next \<open>n\<close> keys, and is truncated, with a cursor, exactly when keys remain
  after them. In both the storage fills the page and the loop stops after one query.
  Every listing is truncated exactly when it has a cursor.
\<close>

lemma listing_full_pages:
  assumes "r2_store st" and "ks = listed_keys st pre"
    and "1 \<le> n" and "n \<le> MAX_LIST_KEYS" and "n < length ks"
  shows "sorted ks \<and> distinct ks
       \<and> (\<exists>r. list_objects st (page_options pre n None) = Inr r
              \<and> map key (objects r) = take n ks
              \<and> truncated r \<and> cursor r = Some (ks ! (n - 1)))
       \<and> (2 * n \<le> length ks \<longrightarrow>
            (\<exists>r. list_objects st (page_options pre n (Some (ks ! (n - 1)))) = Inr r
               \<and> map key (objects r) = take n (drop n ks)
               \<and> truncated r = (2 * n < length ks)
               \<and> cursor r = (if 2 * n < length ks then Some (ks ! (2 * n - 1)) else None)))
       \<and> (\<forall>options r. list_objects st options = Inr r \<longrightarrow> truncated r = (cursor r \<noteq> None))"
proof -
  have n0: "0 < n" using assms(3) by simp
  have lim: "\<not> (int n < 1 \<or> int MAX_LIST_KEYS < int n)" using assms(3,4) by simp
  have first: "\<exists>r. list_objects st (page_options pre n None) = Inr r
              \<and> map key (objects r) = take n ks
              \<and> truncated r \<and> cursor r = Some (ks ! (n - 1))"
  proof -
    have sl: "Storage_list st pre n None = (take n (matching_keys st pre), Some (ks ! (n - 1)))"
      using Storage_list_first [OF n0, of st pre] assms(2,5) by simp
    have "length (fst (Storage_list st pre n None)) = n"
      using sl assms(2,5) by (simp add: listed_keys_def)
    from list_loop_one_page [OF assms(1) n0 this, of "[]"] sl
    obtain objs where "list_loop st pre n [] None [] [] None = (objs, [], Some (ks ! (n - 1)))"
      and "map key objs = map name (take n (matching_keys st pre))" by auto
    then show ?thesis
      using lim assms(2) by (simp add: list_objects_def page_options_def listed_keys_def take_map)
  qed
  have second: "\<exists>r. list_objects st (page_options pre n (Some (ks ! (n - 1)))) = Inr r
               \<and> map key (objects r) = take n (drop n ks)
               \<and> truncated r = (2 * n < length ks)
               \<and> cursor r = (if 2 * n < length ks then Some (ks ! (2 * n - 1)) else None)"
    if two: "2 * n \<le> length ks"
  proof -
    let ?c = "if 2 * n < length ks then Some (ks ! (2 * n - 1)) else None"
    have sl: "Storage_list st pre n (Some (ks ! (n - 1)))
                = (take n (drop n (matching_keys st pre)), ?c)"
      using Storage_list_second [OF assms(1) n0, of pre] two assms(2) by simp
    have "length (fst (Storage_list st pre n (Some (ks ! (n - 1))))) = n"
      using sl two assms(2) by (simp add: listed_keys_def)
    from list_loop_one_page [OF assms(1) n0 this, of "[]"] sl
    obtain objs where "list_loop st pre n [] None [] [] (Some (ks ! (n - 1))) = (objs, [], ?c)"
      and "map key objs = map name (take n (drop n (matching_keys st pre)))" by auto
    then show ?thesis
      using lim assms(2)
      by (simp add: list_objects_def page_options_def listed_keys_def take_map drop_map)
  qed
  have tr: "\<forall>options r. list_objects st options = Inr r \<longrightarrow> truncated r = (cursor r \<noteq> None)"
    using list_objects_truncated by blast
  have so: "sorted ks" "distinct ks"
    using listed_keys_sorted(1,2) [OF assms(1), of pre] assms(2) by simp_all
  show ?thesis
    using so first second tr by simp
qed

lemma listing_full_pages_example:
  "r2_store store_k1_to_k4
   \<and> [js ''k1'', js ''k2'', js ''k3'', js ''k4''] = listed_keys store_k1_to_k4 []
   \<and> page_summary (list_objects store_k1_to_k4 (page_options [] 2 None))
       = Some ([js ''k1'', js ''k2''], True, Some (js ''k2''))
   \<and> page_summary (list_objects store_k1_to_k4 (page_options [] 2 (Some (js ''k2''))))
       = Some ([js ''k3'', js ''k4''], False, None)"
proof -
  let ?ks = "[js ''k1'', js ''k2'', js ''k3'', js ''k4'']"
  have s: "r2_store store_k1_to_k4"
    by (simp add: gateway_defs example_defs r2_store_def)
  have k: "?ks = listed_keys store_k1_to_k4 []"
    by (simp add: gateway_defs example_defs list_defs listed_keys_def)
  have n: "(1::nat) \<le> 2" "(2::nat) \<le> MAX_LIST_KEYS" "2 < length ?ks"
    by (simp_all add: MAX_LIST_KEYS_def)
  note t = listing_full_pages [OF s k n]
  from t obtain r where r: "list_objects store_k1_to_k4 (page_options [] 2 None) = Inr r"
    "map key (objects r) = take 2 ?ks" "truncated r" "cursor r = Some (?ks ! (2 - 1))"
    by blast
  have "2 * 2 \<le> length ?ks" by simp
  with t obtain q
    where q: "list_objects store_k1_to_k4 (page_options [] 2 (Some (?ks ! (2 - 1)))) = Inr q"
    "map key (objects q) = take 2 (drop 2 ?ks)" "truncated q = (2 * 2 < length ?ks)"
    "cursor q = (if 2 * 2 < length ?ks then Some (?ks ! (2 * 2 - 1)) else None)"
    by blast
  have "page_summary (list_objects store_k1_to_k4 (page_options [] 2 None))
       = Some ([js ''k1'', js ''k2''], True, Some (js ''k2''))"
    using r by (simp add: page_summary_def)
  moreover have "page_summary (list_objects store_k1_to_k4 (page_options [] 2 (Some (js ''k2''))))
       = Some ([js ''k3'', js ''k4''], False, None)"
    using q by (simp add: page_summary_def)
  ultimately show ?thesis using s k by blast
qed

text \<open>
  C6. The store holds the three keys \<open>"a/b"\<close>, \<open>"a/c"\<close> and \<open>"d"\<close>, and the limit is 2. The
  first listing returns \<open>"a/b"\<close> and \<open>"a/c"\<close>, is truncated and has the cursor of \<open>"a/c"\<close>.
  The listing resumed with that cursor does not return the one remaining key with
  \<open>truncated\<close> false and no cursor: it returns \<open>"d"\<close> and then \<open>"a/b"\<close> once more, is
  truncated and has the cursor of \<open>"a/b"\<close>. The page of the storage that holds \<open>"d"\<close> is
  short and leaves the cursor undefined, and the loop, not yet at its limit, queries the
  storage again with that cursor, which lists from the first key.
\<close>

theorem short_final_page_lists_from_start:
  "listed_keys store_a_b_a_c_d [] = [js ''a/b'', js ''a/c'', js ''d'']
   \<and> page_summary (list_objects store_a_b_a_c_d (page_options [] 2 None))
       = Some ([js ''a/b'', js ''a/c''], True, Some (js ''a/c''))
   \<and> page_summary (list_objects store_a_b_a_c_d (page_options [] 2 (Some (js ''a/c''))))
       = Some ([js ''d'', js ''a/b''], True, Some (js ''a/b''))"
proof (intro conjI)
  show "listed_keys store_a_b_a_c_d [] = [js ''a/b'', js ''a/c'', js ''d'']"
    by (simp add: gateway_defs example_defs list_defs listed_keys_def)
  show "page_summary (list_objects store_a_b_a_c_d (page_options [] 2 None))
       = Some ([js ''a/b'', js ''a/c''], True, Some (js ''a/c''))"
    apply (simp add: list_objects_def page_options_def MAX_LIST_KEYS_def page_summary_def)
    apply (simp add: gateway_defs example_defs list_defs)
    done
  show "page_summary (list_objects store_a_b_a_c_d (page_options [] 2 (Some (js ''a/c''))))
       = Some ([js ''d'', js ''a/b''], True, Some (js ''a/b''))"
    apply (simp add: list_objects_def page_options_def MAX_LIST_KEYS_def page_summary_def)
    apply (simp add: gateway_defs example_defs list_defs)
    done
qed

section \<open>The file-system storage: keys and paths\<close>

lemmas file_defs =
  FileStorage_put_def getMaybeExpired_def hasMaybeExpired_def getAlarm_def setAlarm_def
  keyPath_def path_join_def path_normalize_def js_def slash_def startsWith_def
  writeFile_def readFile_def deleteFile_def existsSync_def below_a_file_def is_directory_def
  ancestors_def is_file_def metaSuffix_def meta_def empty_FileMeta_def ALARM_KEY_def
  inside_root_def unsanitised_storage_def bytes_only_def Let_def

lemma traversal_rejected:
  assumes "fst (keyPath sanitisePath this k) = None"
  shows "FileStorage_put sanitisePath stringify this d k stored
           = (Inl (FileStorageError ERR_TRAVERSAL), d)"
    and "getMaybeExpired sanitisePath parse this d k = Inr None"
    and "hasMaybeExpired sanitisePath parse this d k = Inr None"
  using assms
  by (auto simp: FileStorage_put_def getMaybeExpired_def hasMaybeExpired_def split: prod.splits)

text \<open>
  C9. The storage is rooted at \<open>/data/store\<close> and does not sanitise its keys. The key
  \<open>../store-evil/x\<close> resolves to \<open>/data/store-evil/x\<close>, which is neither the root nor a
  path below it, yet \<open>put\<close> does not throw \<open>ERR_TRAVERSAL\<close>: it creates that file, since
  the path starts with the characters of the root. A read of the key returns the content
  of that file.
\<close>

theorem put_outside_root_by_shared_prefix:
  "path_join [js ''/data/store'', js ''../store-evil/x''] = js ''/data/store-evil/x''
   \<and> \<not> inside_root (root unsanitised_storage) (js ''/data/store-evil/x'')
   \<and> FileStorage_put id (\<lambda>m::unit FileMeta. []) unsanitised_storage []
         (js ''../store-evil/x'') (bytes_only [1, 2, 3])
       = (Inr (), [(js ''/data/store-evil/x'', [1, 2, 3])])
   \<and> getMaybeExpired id (\<lambda>b. None :: unit FileMeta option) unsanitised_storage
         [(js ''/data/store-evil/x'', [1, 2, 3])] (js ''../store-evil/x'')
       = Inr (Some (bytes_only [1, 2, 3]))"
  by (simp add: file_defs)

theorem put_outside_root_by_shared_prefix_witness:
  "map_of (snd (FileStorage_put id (\<lambda>m::unit FileMeta. []) unsanitised_storage []
                  (js ''../store-evil/x'') (bytes_only [1, 2, 3])))
       (js ''/data/store-evil/x'') = Some [1, 2, 3]"
  using put_outside_root_by_shared_prefix by simp

section \<open>The alarm key\<close>

lemma ancestors_shorter: "a \<in> set (ancestors p) \<Longrightarrow> length a < length p"
  by (auto simp: ancestors_def)

lemma is_file_update: "is_file (AList.update q v d) a \<longleftrightarrow> a = q \<or> is_file d a"
  by (simp add: is_file_def update_conv')

lemma is_file_delete: "is_file (AList.delete q d) a \<longleftrightarrow> a \<noteq> q \<and> is_file d a"
  by (simp add: is_file_def delete_conv')

lemma ancestors_not_longer:
  assumes "length p \<le> length q" and "a \<in> set (ancestors p)"
  shows "a \<noteq> q"
  using ancestors_shorter [OF assms(2)] assms(1) by auto

lemma below_a_file_update:
  "length p \<le> length q \<Longrightarrow> below_a_file (AList.update q v d) p = below_a_file d p"
  using ancestors_not_longer [of p q]
  by (auto simp: below_a_file_def list_ex_iff is_file_update)

lemma below_a_file_delete:
  "length p \<le> length q \<Longrightarrow> below_a_file (AList.delete q d) p = below_a_file d p"
  using ancestors_not_longer [of p q]
  by (auto simp: below_a_file_def list_ex_iff is_file_delete)

lemma is_directory_iff:
  "is_directory d p \<longleftrightarrow> (\<exists>q \<in> fst ` set d. startsWith q (p @ [slash]))"
  by (force simp: is_directory_def list_ex_iff)

lemma is_directory_update:
  "is_directory (AList.update q v d) p \<longleftrightarrow> startsWith q (p @ [slash]) \<or> is_directory d p"
  by (auto simp: is_directory_iff dom_update)

lemma is_directory_delete:
  "\<not> is_directory d p \<Longrightarrow> \<not> is_directory (AList.delete q d) p"
  unfolding is_directory_iff using dom_delete_subset [of q d] by blast

lemma not_startsWith_self: "\<not> startsWith p (p @ [c])"
  by (simp add: startsWith_def)

lemma not_startsWith_meta: "\<not> startsWith (p @ metaSuffix) (p @ [slash])"
  by (simp add: startsWith_def metaSuffix_def js_def slash_def)

lemma metaSuffix_not_empty: "metaSuffix \<noteq> []"
  by (simp add: metaSuffix_def js_def)

lemma readFile_after_write:
  assumes "writeFile d p v = Inr d1"
  shows "readFile d1 p = Inr (Some v)"
    and "\<not> below_a_file d1 p" and "\<not> is_directory d1 p"
  using assms
  by (auto simp: writeFile_def readFile_def below_a_file_update is_directory_update
      not_startsWith_self update_conv' split: if_splits)

lemma readFile_after_meta_write:
  assumes "readFile d1 p = Inr (Some v)" and "writeFile d1 (p @ metaSuffix) w = Inr d2"
  shows "readFile d2 p = Inr (Some v)"
  using assms
  by (auto simp: writeFile_def readFile_def below_a_file_update is_directory_update
      not_startsWith_meta update_conv' metaSuffix_not_empty split: if_splits)

lemma readFile_after_meta_delete:
  assumes "readFile d1 p = Inr (Some v)" and "deleteFile d1 (p @ metaSuffix) = Inr (ex, d2)"
  shows "readFile d2 p = Inr (Some v)"
  using assms
  by (auto simp: deleteFile_def readFile_def below_a_file_delete is_directory_delete
      delete_conv' metaSuffix_not_empty split: if_splits)

lemma put_then_read:
  assumes "FileStorage_put sanitisePath stringify this d k stored = (Inr (), d')"
  shows "\<exists>p. fst (keyPath sanitisePath this k) = Some p \<and> readFile d' p = Inr (Some (value' stored))"
proof -
  obtain fp san where kp: "keyPath sanitisePath this k = (fp, san)"
    by (cases "keyPath sanitisePath this k")
  with assms obtain p where p: "fp = Some p"
    by (cases fp) (auto simp: FileStorage_put_def)
  from assms kp p obtain d1 where w: "writeFile d p (value' stored) = Inr d1"
    by (cases "writeFile d p (value' stored)") (auto simp: FileStorage_put_def split: if_splits)
  have r1: "readFile d1 p = Inr (Some (value' stored))"
    by (rule readFile_after_write(1) [OF w])
  have "readFile d' p = Inr (Some (value' stored))"
  proof (cases "expiration stored \<noteq> None \<or> metadata stored \<noteq> None \<or> san")
    case True
    with assms kp p w obtain w' where "writeFile d1 (p @ metaSuffix) w' = Inr d'"
      by (auto simp: FileStorage_put_def Let_def split: sum.splits)
    then show ?thesis by (rule readFile_after_meta_write [OF r1])
  next
    case False
    with assms kp p w obtain ex where "deleteFile d1 (p @ metaSuffix) = Inr (ex, d')"
      by (auto simp: FileStorage_put_def Let_def split: sum.splits)
    then show ?thesis by (rule readFile_after_meta_delete [OF r1])
  qed
  with kp p show ?thesis by simp
qed

lemma ancestors_append:
  assumes "slash \<notin> set s"
  shows "set (ancestors (p @ s)) = set (ancestors p)"
proof -
  have "(p @ s) ! i = slash \<longleftrightarrow> i < length p \<and> p ! i = slash" if "i < length p + length s" for i
  proof (cases "i < length p")
    case True
    then show ?thesis by (simp add: nth_append)
  next
    case False
    with that have "i - length p < length s" by simp
    then have "s ! (i - length p) \<in> set s" by (rule nth_mem)
    with assms have "s ! (i - length p) \<noteq> slash" by auto
    with False show ?thesis by (simp add: nth_append)
  qed
  then show ?thesis
    by (auto simp: ancestors_def) force
qed

lemma below_a_file_meta: "below_a_file d (p @ metaSuffix) = below_a_file d p"
proof -
  have "slash \<notin> set metaSuffix"
    by (simp add: metaSuffix_def js_def slash_def)
  then show ?thesis
    by (simp add: below_a_file_def list_ex_iff ancestors_append)
qed

lemma meta_not_ENOTDIR:
  "\<not> below_a_file d p \<Longrightarrow> meta parse d p \<noteq> Inl (Errno ENOTDIR)"
  by (auto simp: meta_def readFile_def below_a_file_meta split: option.splits)

text \<open>
  C10. The alarm lives under the plain key \<open>__MINIFLARE_ALARM__\<close>, mapped to its path as
  every key is. When an ordinary \<open>put\<close> of that key succeeds, \<open>getAlarm\<close> returns the number
  read from the bytes that were put. When \<open>setAlarm\<close> succeeds, the file of the key holds
  the encoded text of the number, and an ordinary read of the key returns those bytes as
  its value, with whatever the sidecar of the key holds, unless reading the sidecar
  throws; it is never "not found".
\<close>

theorem alarm_key_is_an_ordinary_key:
  "(FileStorage_put sanitisePath stringify this d ALARM_KEY stored = (Inr (), d1) \<longrightarrow>
      getAlarm sanitisePath toNumber this d1 = Inr (Some (toNumber (value' stored))))
   \<and> (setAlarm sanitisePath toString this d t = (Inr (), d2) \<longrightarrow>
        (\<exists>p. fst (keyPath sanitisePath this ALARM_KEY) = Some p
           \<and> readFile d2 p = Inr (Some (encode (toString t)))
           \<and> getMaybeExpired sanitisePath parse this d2 ALARM_KEY
               = (case meta parse d2 p of
                    Inl e \<Rightarrow> Inl e
                  | Inr m \<Rightarrow>
                      Inr (Some \<lparr>expiration = expiration m, metadata = metadata m,
                                 value' = encode (toString t)\<rparr>))))"
proof (intro conjI impI)
  assume "FileStorage_put sanitisePath stringify this d ALARM_KEY stored = (Inr (), d1)"
  from put_then_read [OF this]
  show "getAlarm sanitisePath toNumber this d1 = Inr (Some (toNumber (value' stored)))"
    by (auto simp: getAlarm_def split: prod.splits)
next
  assume a: "setAlarm sanitisePath toString this d t = (Inr (), d2)"
  obtain fp san where kp: "keyPath sanitisePath this ALARM_KEY = (fp, san)"
    by (cases "keyPath sanitisePath this ALARM_KEY")
  with a obtain p where p: "fp = Some p"
    by (cases fp) (auto simp: setAlarm_def)
  from a kp p have w: "writeFile d p (encode (toString t)) = Inr d2"
    by (cases "writeFile d p (encode (toString t))") (auto simp: setAlarm_def split: if_splits)
  have r: "readFile d2 p = Inr (Some (encode (toString t)))"
    by (rule readFile_after_write(1) [OF w])
  have "meta parse d2 p \<noteq> Inl (Errno ENOTDIR)"
    by (rule meta_not_ENOTDIR [OF readFile_after_write(2) [OF w]])
  then have "getMaybeExpired sanitisePath parse this d2 ALARM_KEY
               = (case meta parse d2 p of
                    Inl e \<Rightarrow> Inl e
                  | Inr m \<Rightarrow>
                      Inr (Some \<lparr>expiration = expiration m, metadata = metadata m,
                                 value' = encode (toString t)\<rparr>))"
    using kp p r by (auto simp: getMaybeExpired_def split: sum.splits)
  with kp p r
  show "\<exists>p. fst (keyPath sanitisePath this ALARM_KEY) = Some p
           \<and> readFile d2 p = Inr (Some (encode (toString t)))
           \<and> getMaybeExpired sanitisePath parse this d2 ALARM_KEY
               = (case meta parse d2 p of
                    Inl e \<Rightarrow> Inl e
                  | Inr m \<Rightarrow>
                      Inr (Some \<lparr>expiration = expiration m, metadata = metadata m,
                                 value' = encode (toString t)\<rparr>))"
    by auto
qed

theorem alarm_key_is_an_ordinary_key_witness:
  "FileStorage_put id (\<lambda>m::unit FileMeta. []) unsanitised_storage [] ALARM_KEY
       (bytes_only (encode (js ''42'')))
     = (Inr (), [(js ''/data/store/__MINIFLARE_ALARM__'', encode (js ''42''))])
   \<and> getAlarm id number_of_digits unsanitised_storage
        [(js ''/data/store/__MINIFLARE_ALARM__'', encode (js ''42''))] = Inr (Some 42)
   \<and> setAlarm id digits_of_number unsanitised_storage [] 42
     = (Inr (), [(js ''/data/store/__MINIFLARE_ALARM__'', encode (js ''42''))])
   \<and> getMaybeExpired id (\<lambda>b. None :: unit FileMeta option) unsanitised_storage
        [(js ''/data/store/__MINIFLARE_ALARM__'', encode (js ''42''))] ALARM_KEY
     = Inr (Some (bytes_only (encode (js ''42''))))"
proof -
  let ?d = "[(js ''/data/store/__MINIFLARE_ALARM__'', encode (js ''42''))]"
  let ?parse = "\<lambda>b. None :: unit FileMeta option"
  have p: "FileStorage_put id (\<lambda>m::unit FileMeta. []) unsanitised_storage [] ALARM_KEY
             (bytes_only (encode (js ''42''))) = (Inr (), ?d)"
    by (simp add: file_defs utf8_of_code_point_def scalar_of_unit_def is_lead_surrogate_def
        is_trail_surrogate_def)
  have s: "setAlarm id digits_of_number unsanitised_storage [] 42 = (Inr (), ?d)"
    by (simp add: file_defs digits_of_number_def utf8_of_code_point_def scalar_of_unit_def
        is_lead_surrogate_def is_trail_surrogate_def)
  have k: "fst (keyPath id unsanitised_storage ALARM_KEY)
             = Some (js ''/data/store/__MINIFLARE_ALARM__'')"
    by (simp add: file_defs)
  have m: "meta ?parse ?d (js ''/data/store/__MINIFLARE_ALARM__'') = Inr empty_FileMeta"
    by (simp add: file_defs utf8_of_code_point_def scalar_of_unit_def is_lead_surrogate_def
        is_trail_surrogate_def)
  have n: "number_of_digits (encode (js ''42'')) = 42"
    by (simp add: number_of_digits_def js_def utf8_of_code_point_def scalar_of_unit_def
        is_lead_surrogate_def is_trail_surrogate_def)
  have e: "encode (digits_of_number 42) = encode (js ''42'')"
    by (simp add: digits_of_number_def)
  note t = alarm_key_is_an_ordinary_key
    [where sanitisePath = id and stringify = "\<lambda>m::unit FileMeta. []"
       and this = unsanitised_storage and d = "[]" and stored = "bytes_only (encode (js ''42''))"
       and toNumber = number_of_digits and toString = digits_of_number and t = 42
       and parse = ?parse]
  have "getAlarm id number_of_digits unsanitised_storage ?d = Inr (Some 42)"
    using t [of ?d ?d] p n by (simp add: bytes_only_def)
  moreover have "getMaybeExpired id ?parse unsanitised_storage ?d ALARM_KEY
                   = Inr (Some (bytes_only (encode (js ''42''))))"
    using t [of ?d ?d] s k m e by (auto simp: empty_FileMeta_def bytes_only_def)
  ultimately show ?thesis using p s by blast
qed

end
